theory Spec2Isabelle
  imports Complex_Main "HOL-Library.Word" "HOL-Library.Sublist" "HOL-Library.List_Lexorder"
begin

section \<open>JavaScript strings\<close>

text \<open>
  A JavaScript string is a sequence of UTF-16 code units. String literals of the scripts
  are ASCII apart from the two glyphs of the progress lines, so a literal is written
  \<open>js ''...''\<close>. \<open>str_includes\<close> and \<open>str_endsWith\<close> are \<open>String.prototype.includes\<close> and \<open>endsWith\<close>;
  the default \<open>Array.prototype.sort\<close> orders strings by their code units, which is the
  lexicographic order on \<open>jsstring\<close>.
\<close>

type_synonym jschar = "16 word"
type_synonym jsstring = "jschar list"

definition js :: "string \<Rightarrow> jsstring" where
  "js s = map of_char s"

definition str_includes :: "jsstring \<Rightarrow> jsstring \<Rightarrow> bool" where
  "str_includes s sub = sublist sub s"

definition str_endsWith :: "jsstring \<Rightarrow> jsstring \<Rightarrow> bool" where
  "str_endsWith s suf = suffix suf s"

text \<open>\<open>s.split(sep)\<close> for a one-character separator; \<open>cur\<close> is the piece being read.\<close>

fun splitOn :: "jschar \<Rightarrow> jsstring \<Rightarrow> jsstring \<Rightarrow> jsstring list" where
  "splitOn sep cur [] = [cur]"
| "splitOn sep cur (x # xs) =
     (if x = sep then cur # splitOn sep [] xs else splitOn sep (cur @ [x]) xs)"

text \<open>\<open>xs.join(sep)\<close> on an array of strings.\<close>

fun joinWith :: "jsstring \<Rightarrow> jsstring list \<Rightarrow> jsstring" where
  "joinWith sep [] = []"
| "joinWith sep [x] = x"
| "joinWith sep (x # y # ys) = x @ sep @ joinWith sep (y # ys)"

text \<open>The decimal rendering of an array length or index in a template literal.\<close>

function showNat :: "nat \<Rightarrow> jsstring" where
  "showNat n = (if n < 10 then [of_nat (48 + n)] else showNat (n div 10) @ [of_nat (48 + n mod 10)])"
  by pat_completeness auto
termination
  by (relation "measure id") auto

declare showNat.simps [simp del]

section \<open>Regular expressions\<close>

text \<open>
  The three regular expressions of the scripts are sequences of anchors, single-character
  classes with the greedy quantifiers \<open>*\<close> and \<open>+\<close>, and one capture group. \<open>rx_match\<close>
  is the backtracking matcher at one start position: a greedy quantifier first tries to take
  one more character and falls back to the rest of the pattern when that fails. \<open>prev\<close> is
  the code unit before the current position (\<open>None\<close> at the start of the input), \<open>ml\<close> the
  flag \<open>m\<close>. The result is the text of capture group 1 (\<open>match[1]\<close>). \<open>rx_exec\<close> tries
  the start positions from left to right, as \<open>String.prototype.match\<close> does for a
  regular expression without the flag \<open>g\<close>.
\<close>

definition isLineTerminator :: "jschar \<Rightarrow> bool" where
  "isLineTerminator c = (c = 0x0A \<or> c = 0x0D \<or> c = 0x2028 \<or> c = 0x2029)"

text \<open>The class \<open>\s\<close>: white space and line terminators of ECMAScript.\<close>

definition isSpace :: "jschar \<Rightarrow> bool" where
  "isSpace c = (c = 0x09 \<or> c = 0x0A \<or> c = 0x0B \<or> c = 0x0C \<or> c = 0x0D \<or> c = 0x20
     \<or> c = 0xA0 \<or> c = 0x1680 \<or> (0x2000 \<le> c \<and> c \<le> 0x200A) \<or> c = 0x2028 \<or> c = 0x2029
     \<or> c = 0x202F \<or> c = 0x205F \<or> c = 0x3000 \<or> c = 0xFEFF)"

text \<open>The class \<open>[0-9]\<close>.\<close>

definition isDigit :: "jschar \<Rightarrow> bool" where
  "isDigit c = (0x30 \<le> c \<and> c \<le> 0x39)"

text \<open>The class \<open>\w\<close>.\<close>

definition isWord :: "jschar \<Rightarrow> bool" where
  "isWord c = ((0x41 \<le> c \<and> c \<le> 0x5A) \<or> (0x61 \<le> c \<and> c \<le> 0x7A) \<or> isDigit c \<or> c = 0x5F)"

datatype atom =
    Bol
  | Eol
  | Class "jschar \<Rightarrow> bool"
  | ZeroOrMore "jschar \<Rightarrow> bool"
  | OneOrMore "jschar \<Rightarrow> bool"
  | OpenGroup
  | CloseGroup

fun rx_match ::
  "bool \<Rightarrow> atom list \<Rightarrow> jschar option \<Rightarrow> jsstring \<Rightarrow> bool \<Rightarrow> jsstring \<Rightarrow> jsstring option" where
  "rx_match ml [] prev s rec acc = Some acc"
| "rx_match ml (Bol # r) prev s rec acc =
     (if (case prev of None \<Rightarrow> True | Some c \<Rightarrow> ml \<and> isLineTerminator c)
      then rx_match ml r prev s rec acc else None)"
| "rx_match ml (Eol # r) prev s rec acc =
     (if (case s of [] \<Rightarrow> True | c # _ \<Rightarrow> ml \<and> isLineTerminator c)
      then rx_match ml r prev s rec acc else None)"
| "rx_match ml (Class p # r) prev [] rec acc = None"
| "rx_match ml (Class p # r) prev (x # xs) rec acc =
     (if p x then rx_match ml r (Some x) xs rec (if rec then acc @ [x] else acc) else None)"
| "rx_match ml (ZeroOrMore p # r) prev [] rec acc = rx_match ml r prev [] rec acc"
| "rx_match ml (ZeroOrMore p # r) prev (x # xs) rec acc =
     (if p x then
        (case rx_match ml (ZeroOrMore p # r) (Some x) xs rec (if rec then acc @ [x] else acc) of
           Some res \<Rightarrow> Some res
         | None \<Rightarrow> rx_match ml r prev (x # xs) rec acc)
      else rx_match ml r prev (x # xs) rec acc)"
| "rx_match ml (OneOrMore p # r) prev [] rec acc = None"
| "rx_match ml (OneOrMore p # r) prev (x # xs) rec acc =
     (if p x then rx_match ml (ZeroOrMore p # r) (Some x) xs rec (if rec then acc @ [x] else acc)
      else None)"
| "rx_match ml (OpenGroup # r) prev s rec acc = rx_match ml r prev s True []"
| "rx_match ml (CloseGroup # r) prev s rec acc = rx_match ml r prev s False acc"

fun rx_search :: "bool \<Rightarrow> atom list \<Rightarrow> jschar option \<Rightarrow> jsstring \<Rightarrow> jsstring option" where
  "rx_search ml re prev [] = rx_match ml re prev [] False []"
| "rx_search ml re prev (x # xs) =
     (case rx_match ml re prev (x # xs) False [] of
        Some res \<Rightarrow> Some res
      | None \<Rightarrow> rx_search ml re (Some x) xs)"

definition rx_exec :: "bool \<Rightarrow> atom list \<Rightarrow> jsstring \<Rightarrow> jsstring option" where
  "rx_exec ml re s = rx_search ml re None s"

text \<open>A run of literal characters.\<close>

definition lit :: "string \<Rightarrow> atom list" where
  "lit s = map (\<lambda>c. Class (\<lambda>x. x = of_char c)) s"

section \<open>generate-core.js\<close>

text \<open>
  \<open>/^\s*module\s+(\w+)\s*(?:#|\(|;)/m\<close>. The final group is an alternation of three
  single characters, which is the class \<open>isDeclEnd\<close> of the three.
\<close>

definition isDeclEnd :: "jschar \<Rightarrow> bool" where
  "isDeclEnd c = (c = of_char CHR ''#'' \<or> c = of_char CHR ''('' \<or> c = of_char CHR '';'')"

definition moduleRegex :: "atom list" where
  "moduleRegex =
     [Bol, ZeroOrMore isSpace] @ lit ''module'' @
     [OneOrMore isSpace, OpenGroup, OneOrMore isWord, CloseGroup, ZeroOrMore isSpace, Class isDeclEnd]"

definition extractModuleName :: "jsstring \<Rightarrow> jsstring option" where
  "extractModuleName verilogContent = rx_exec True moduleRegex verilogContent"

text \<open>
  \<open>generateCoreFile\<close> is the template literal of the source, with its line breaks. Every
  caller passes strings for the chip number and the module names; the version may be any
  value read from \<open>package.json\<close>, and the caller's model converts it with \<open>toStr\<close>,
  as the template literal does, and throws what the conversion throws.
\<close>

definition generateCoreFile :: "jsstring \<Rightarrow> jsstring \<Rightarrow> jsstring \<Rightarrow> jsstring \<Rightarrow> jsstring" where
  "generateCoreFile chipNumber version rtlModuleName tbModuleName =
     (let coreName = js ''icechips:ttl:'' @ chipNumber @ js '':'' @ version in
      js ''CAPI=2:\<newline>name: '' @ coreName @
      js ''\<newline>\<newline># Note: File order matters for iverilog! RTL must come last because\<newline># the testbench instantiates the DUT module, so the module must be\<newline># defined before instantiation. Iverilog processes files sequentially\<newline># and doesn't do multiple passes.\<newline># Macro dependencies must also be defined first.\<newline>\<newline>filesets:\<newline>  rtl:\<newline>    files:\<newline>      - includes/helper.v\<newline>      - source-7400/'' @
      chipNumber @
      js ''.v\<newline>    file_type: verilogSource\<newline>\<newline>  tb:\<newline>    files:\<newline>      - includes/tbhelper.v\<newline>      - source-7400/'' @
      chipNumber @
      js ''-tb.v\<newline>    file_type: verilogSource\<newline>\<newline>targets:\<newline>  default:\<newline>    filesets: [rtl]\<newline>    toplevel: '' @
      rtlModuleName @
      js ''\<newline>  sim:\<newline>    filesets: [tb, rtl]\<newline>    toplevel: '' @
      tbModuleName @
      js ''\<newline>    default_tool: icarus\<newline>    tools:\<newline>      icarus: {iverilog_options: [-g2012]}\<newline>'')"

section \<open>Values, errors and the world outside the scripts\<close>

text \<open>
  The values \<open>JSON.parse\<close> returns. A number is an IEEE double: a rational or an
  infinity (a literal such as \<open>1e400\<close> overflows); both zeros are \<open>Finite 0\<close>. An object
  is the list of its own properties.
\<close>

datatype jsnumber = Finite rat | PosInfinity | NegInfinity

datatype json =
    JNull
  | JBool bool
  | JNum jsnumber
  | JStr jsstring
  | JArr "json list"
  | JObj "(jsstring \<times> json) list"

text \<open>The values that \<open>||\<close> and \<open>if\<close> treat as true.\<close>

fun truthy :: "json \<Rightarrow> bool" where
  "truthy JNull = False"
| "truthy (JBool b) = b"
| "truthy (JNum n) = (n \<noteq> Finite 0)"
| "truthy (JStr s) = (s \<noteq> [])"
| "truthy (JArr xs) = True"
| "truthy (JObj kvs) = True"

datatype errno = ENOENT | EACCES | EISDIR | ENOTDIR

text \<open>
  What a \<open>catch\<close> clause can receive: an error of \<open>fs\<close> (error code, system call,
  and the path when the message names one), a \<open>SyntaxError\<close> of \<open>JSON.parse\<close>, a \<open>TypeError\<close>, an \<open>Error\<close> the scripts
  construct themselves, and the error of \<open>execSync\<close> with the output it captured.
\<close>

datatype js_error =
    SystemError errno jsstring "jsstring option"
  | SyntaxError jsstring
  | TypeError jsstring
  | Error jsstring
  | ExecError jsstring "jsstring option" "jsstring option"

definition errno_text :: "errno \<Rightarrow> jsstring" where
  "errno_text e = (case e of
       ENOENT \<Rightarrow> js ''ENOENT: no such file or directory''
     | EACCES \<Rightarrow> js ''EACCES: permission denied''
     | EISDIR \<Rightarrow> js ''EISDIR: illegal operation on a directory''
     | ENOTDIR \<Rightarrow> js ''ENOTDIR: not a directory'')"

text \<open>\<open>error.message\<close>. The wording of the errors of \<open>fs\<close> is the one Node.js prints.\<close>

fun err_message :: "js_error \<Rightarrow> jsstring" where
  "err_message (SystemError e syscall path) =
     (case path of
        Some p \<Rightarrow> errno_text e @ js '', '' @ syscall @ js '' '' @ [0x27] @ p @ [0x27]
      | None \<Rightarrow> errno_text e @ js '', '' @ syscall)"
| "err_message (SyntaxError m) = m"
| "err_message (TypeError m) = m"
| "err_message (Error m) = m"
| "err_message (ExecError m out err) = m"

text \<open>
  The parts of the platform the scripts call and this development does not define:
  \<open>path.join\<close>, \<open>JSON.parse\<close> and the conversion of a number to a string.
\<close>

record runtime =
  path_join :: "jsstring \<Rightarrow> jsstring \<Rightarrow> jsstring"
  JSON_parse :: "jsstring \<Rightarrow> js_error + json"
  Number_toString :: "jsnumber \<Rightarrow> jsstring"

text \<open>
  The conversion of a value to a string in a template literal. An object is converted by
  its method \<open>toString\<close>: an object of \<open>JSON.parse\<close> inherits the one that gives
  \<open>[object Object]\<close>, unless it has a property \<open>toString\<close> of its own, which is never a
  function, and then the conversion throws. An array joins the conversions of its elements,
  with nothing for \<open>null\<close>, and throws when one of them does.
\<close>

fun toStr :: "runtime \<Rightarrow> json \<Rightarrow> js_error + jsstring"
  and toStr_elements :: "runtime \<Rightarrow> json list \<Rightarrow> js_error + jsstring list" where
  "toStr rt JNull = Inr (js ''null'')"
| "toStr rt (JBool b) = Inr (if b then js ''true'' else js ''false'')"
| "toStr rt (JNum n) = Inr (Number_toString rt n)"
| "toStr rt (JStr s) = Inr s"
| "toStr rt (JArr xs) =
     (case toStr_elements rt xs of Inl e \<Rightarrow> Inl e | Inr parts \<Rightarrow> Inr (joinWith (js '','') parts))"
| "toStr rt (JObj kvs) =
     (if map_of kvs (js ''toString'') \<noteq> None
      then Inl (TypeError (js ''Cannot convert object to primitive value''))
      else Inr (js ''[object Object]''))"
| "toStr_elements rt [] = Inr []"
| "toStr_elements rt (x # xs) =
     (case (if x = JNull then Inr [] else toStr rt x) of
        Inl e \<Rightarrow> Inl e
      | Inr part \<Rightarrow>
          (case toStr_elements rt xs of Inl e \<Rightarrow> Inl e | Inr parts \<Rightarrow> Inr (part # parts)))"

text \<open>
  The world: the file system, the outcome of each shell command, and what the process has
  done so far. A path holds a readable file with its text, a file that cannot be read, or
  a directory with the names in it. \<open>write_error\<close> gives the paths that cannot be opened
  for writing. \<open>trace\<close> records every access to the file system and every command run,
  \<open>console\<close> everything written to the standard output and the standard error of
  the process, both in order: what the script writes, and what a command writes that runs
  on the streams of the process.
\<close>

datatype entry = File jsstring | Unreadable | Dir "jsstring list"

datatype event =
    ExistsSync jsstring
  | IsExistingFile jsstring
  | ReadFileSync jsstring
  | ReadDirSync jsstring
  | WriteFileSync jsstring jsstring
  | ExecSync jsstring

datatype out = Stdout jsstring | Stderr jsstring

record world =
  files :: "jsstring \<Rightarrow> entry option"
  write_error :: "jsstring \<Rightarrow> errno option"
  shell :: "jsstring \<Rightarrow> js_error + jsstring"
  trace :: "event list"
  console :: "out list"

definition log_event :: "event \<Rightarrow> world \<Rightarrow> world" where
  "log_event e w = w\<lparr>trace := trace w @ [e]\<rparr>"

definition console_log :: "jsstring \<Rightarrow> world \<Rightarrow> world" where
  "console_log s w = w\<lparr>console := console w @ [Stdout (s @ js ''\<newline>'')]\<rparr>"

definition console_error :: "jsstring \<Rightarrow> world \<Rightarrow> world" where
  "console_error s w = w\<lparr>console := console w @ [Stderr (s @ js ''\<newline>'')]\<rparr>"

definition stdout_write :: "jsstring \<Rightarrow> world \<Rightarrow> world" where
  "stdout_write s w = w\<lparr>console := console w @ [Stdout s]\<rparr>"

definition existsSync :: "jsstring \<Rightarrow> world \<Rightarrow> bool \<times> world" where
  "existsSync p w = (files w p \<noteq> None, log_event (ExistsSync p) w)"

definition readFileSync :: "jsstring \<Rightarrow> world \<Rightarrow> (js_error + jsstring) \<times> world" where
  "readFileSync p w =
     ((case files w p of
         None \<Rightarrow> Inl (SystemError ENOENT (js ''open'') (Some p))
       | Some (File text) \<Rightarrow> Inr text
       | Some Unreadable \<Rightarrow> Inl (SystemError EACCES (js ''open'') (Some p))
       | Some (Dir names) \<Rightarrow> Inl (SystemError EISDIR (js ''read'') None)),
      log_event (ReadFileSync p) w)"

definition readdirSync :: "jsstring \<Rightarrow> world \<Rightarrow> (js_error + jsstring list) \<times> world" where
  "readdirSync p w =
     ((case files w p of
         None \<Rightarrow> Inl (SystemError ENOENT (js ''scandir'') (Some p))
       | Some (Dir names) \<Rightarrow> Inr names
       | Some _ \<Rightarrow> Inl (SystemError ENOTDIR (js ''scandir'') (Some p))),
      log_event (ReadDirSync p) w)"

definition writeFileSync :: "jsstring \<Rightarrow> jsstring \<Rightarrow> world \<Rightarrow> (js_error + unit) \<times> world" where
  "writeFileSync p text w =
     (case write_error w p of
        Some e \<Rightarrow> (Inl (SystemError e (js ''open'') (Some p)), log_event (WriteFileSync p text) w)
      | None \<Rightarrow>
          (case files w p of
             Some (Dir names) \<Rightarrow>
               (Inl (SystemError EISDIR (js ''open'') (Some p)), log_event (WriteFileSync p text) w)
           | _ \<Rightarrow> (Inr (), log_event (WriteFileSync p text) (w\<lparr>files := (files w)(p \<mapsto> File text)\<rparr>))))"

text \<open>
  \<open>execSync\<close> with \<open>stdio: 'pipe'\<close> returns the standard output of the command and
  shows nothing. With \<open>'inherit'\<close> the command writes to the streams of the process and
  with \<open>'ignore'\<close> its output is dropped; in both cases nothing is captured, on success
  or on failure. \<open>shell\<close> gives what a command writes: its standard output when it
  succeeds, its standard output and standard error when it fails. \<open>inherited\<close> puts
  the standard output before the standard error, as \<open>shell\<close> does not tell how the
  two are interleaved.
\<close>

definition execSync_pipe :: "jsstring \<Rightarrow> world \<Rightarrow> (js_error + jsstring) \<times> world" where
  "execSync_pipe cmd w = (shell w cmd, log_event (ExecSync cmd) w)"

definition uncaptured :: "js_error + jsstring \<Rightarrow> js_error + unit" where
  "uncaptured r =
     (case r of
        Inr text \<Rightarrow> Inr ()
      | Inl (ExecError m out err) \<Rightarrow> Inl (ExecError m None None)
      | Inl e \<Rightarrow> Inl e)"

definition execSync_ignore :: "jsstring \<Rightarrow> world \<Rightarrow> (js_error + unit) \<times> world" where
  "execSync_ignore cmd w = (uncaptured (shell w cmd), log_event (ExecSync cmd) w)"

definition inherited :: "js_error + jsstring \<Rightarrow> out list" where
  "inherited r =
     (case r of
        Inr text \<Rightarrow> [Stdout text]
      | Inl (ExecError m out err) \<Rightarrow>
          (case out of Some text \<Rightarrow> [Stdout text] | None \<Rightarrow> []) @
          (case err of Some text \<Rightarrow> [Stderr text] | None \<Rightarrow> [])
      | Inl e \<Rightarrow> [])"

definition execSync_inherit :: "jsstring \<Rightarrow> world \<Rightarrow> (js_error + unit) \<times> world" where
  "execSync_inherit cmd w =
     (uncaptured (shell w cmd),
      log_event (ExecSync cmd) (w\<lparr>console := console w @ inherited (shell w cmd)\<rparr>))"

text \<open>
  Modelled from the spec: the class \<open>FsReadFileHelper\<close> of \<open>common/fs-file-helper.js\<close>,
  which is not among the sources. \<open>isExistingFile\<close> is true iff a file of that name,
  resolved relative to the helper's base directory, exists, and never throws;
  \<open>readFile\<close> returns the text of the file resolved the same way and fails when the file
  does not exist.
\<close>

definition isExistingFile :: "runtime \<Rightarrow> jsstring \<Rightarrow> jsstring \<Rightarrow> world \<Rightarrow> bool \<times> world" where
  "isExistingFile rt base fileName w =
     (let p = path_join rt base fileName in
      ((case files w p of Some (File text) \<Rightarrow> True | Some Unreadable \<Rightarrow> True | _ \<Rightarrow> False),
       log_event (IsExistingFile p) w))"

definition readFile :: "runtime \<Rightarrow> jsstring \<Rightarrow> jsstring \<Rightarrow> world \<Rightarrow> (js_error + jsstring) \<times> world" where
  "readFile rt base fileName w = readFileSync (path_join rt base fileName) w"

section \<open>generate-core.js: reading the version and generating one core file\<close>

text \<open>
  \<open>packageJson.version\<close>: reading a property of \<open>null\<close> throws; an object gives its
  own property, if it has one; every other value has no property of that name.
\<close>

definition version_property :: "json \<Rightarrow> js_error + json option" where
  "version_property v = (case v of
       JNull \<Rightarrow> Inl (TypeError (js ''Cannot read properties of null (reading 'version')''))
     | JObj kvs \<Rightarrow> Inr (map_of kvs (js ''version''))
     | _ \<Rightarrow> Inr None)"

definition getVersionFromPackageJson :: "runtime \<Rightarrow> jsstring \<Rightarrow> world \<Rightarrow> (js_error + json) \<times> world" where
  "getVersionFromPackageJson rt projectRoot w =
     (let packageJsonPath = path_join rt projectRoot (js ''package.json'');
          (text, w1) = readFileSync packageJsonPath w
      in case text of
           Inl e \<Rightarrow> (Inl e, w1)
         | Inr text \<Rightarrow>
             (case JSON_parse rt text of
                Inl e \<Rightarrow> (Inl e, w1)
              | Inr packageJson \<Rightarrow>
                  (case version_property packageJson of
                     Inl e \<Rightarrow> (Inl e, w1)
                   | Inr None \<Rightarrow> (Inr (JStr (js ''0.1.0'')), w1)
                   | Inr (Some v) \<Rightarrow> (Inr (if truthy v then v else JStr (js ''0.1.0'')), w1))))"

record gen_result =
  success :: bool
  message :: jsstring
  chip :: "jsstring option"
  rtl_module :: "jsstring option"
  tb_module :: "jsstring option"

definition failure_result :: "jsstring \<Rightarrow> gen_result" where
  "failure_result m = \<lparr>success = False, message = m, chip = None, rtl_module = None, tb_module = None\<rparr>"

text \<open>
  \<open>finalVersion\<close>, that is \<open>version || getVersionFromPackageJson(projectRoot)\<close>: the
  manifest is read when the version is \<open>null\<close> or the empty string.
\<close>

definition finalVersion ::
  "runtime \<Rightarrow> jsstring \<Rightarrow> jsstring option \<Rightarrow> world \<Rightarrow> (js_error + json) \<times> world" where
  "finalVersion rt projectRoot version w =
     (case version of
        None \<Rightarrow> getVersionFromPackageJson rt projectRoot w
      | Some v \<Rightarrow> if v \<noteq> [] then (Inr (JStr v), w) else getVersionFromPackageJson rt projectRoot w)"

text \<open>
  The body of the \<open>try\<close> block of \<open>generateCoreForChip\<close>: \<open>Inl\<close> is an exception
  thrown inside it. The version is converted to a string where \<open>generateCoreFile\<close>
  builds the core name.
\<close>

definition generateCoreForChip_try ::
  "runtime \<Rightarrow> jsstring \<Rightarrow> jsstring \<Rightarrow> jsstring option \<Rightarrow> world \<Rightarrow> (js_error + gen_result) \<times> world" where
  "generateCoreForChip_try rt chipNumber projectRoot version w =
     (case finalVersion rt projectRoot version w of
        (Inl e, w1) \<Rightarrow> (Inl e, w1)
      | (Inr final_version, w1) \<Rightarrow>
      (let sourceDir = path_join rt projectRoot (js ''source-7400'');
           rtlFileName = chipNumber @ js ''.v'';
           tbFileName = chipNumber @ js ''-tb.v'';
           (rtlExists, w2) = isExistingFile rt sourceDir rtlFileName w1
       in if \<not> rtlExists
          then (Inr (failure_result (js ''RTL file not found: '' @ path_join rt sourceDir rtlFileName)), w2)
          else
      (let (tbExists, w3) = isExistingFile rt sourceDir tbFileName w2
       in if \<not> tbExists
          then (Inr (failure_result (js ''Testbench file not found: '' @ path_join rt sourceDir tbFileName)), w3)
          else
      (case readFile rt sourceDir rtlFileName w3 of
         (Inl e, w4) \<Rightarrow> (Inl e, w4)
       | (Inr rtlContent, w4) \<Rightarrow>
      (case readFile rt sourceDir tbFileName w4 of
         (Inl e, w5) \<Rightarrow> (Inl e, w5)
       | (Inr tbContent, w5) \<Rightarrow>
      (let rtlFailure = (Inr (failure_result (js ''Could not extract module name from '' @ rtlFileName)), w5);
           tbFailure = (Inr (failure_result (js ''Could not extract module name from '' @ tbFileName)), w5)
       in case extractModuleName rtlContent of
            None \<Rightarrow> rtlFailure
          | Some rtlModuleName \<Rightarrow>
              if rtlModuleName = [] then rtlFailure
              else
      (case extractModuleName tbContent of
         None \<Rightarrow> tbFailure
       | Some tbModuleName \<Rightarrow>
           if tbModuleName = [] then tbFailure
           else
      (case toStr rt final_version of
         Inl e \<Rightarrow> (Inl e, w5)
       | Inr versionText \<Rightarrow>
      (let coreContent = generateCoreFile chipNumber versionText rtlModuleName tbModuleName;
           coreFileName = js ''icechips_'' @ chipNumber @ js ''.core'';
           coreFilePath = path_join rt projectRoot coreFileName
       in case writeFileSync coreFilePath coreContent w5 of
            (Inl e, w6) \<Rightarrow> (Inl e, w6)
          | (Inr u, w6) \<Rightarrow>
              (Inr \<lparr>success = True, message = js ''Generated core file: '' @ coreFilePath,
                    chip = Some chipNumber, rtl_module = Some rtlModuleName,
                    tb_module = Some tbModuleName\<rparr>, w6))))))))))"

text \<open>
  \<open>generateCoreForChip\<close>: the \<open>try\<close> block and its \<open>catch\<close> clause. \<open>Inl\<close> in the
  result would be an exception that leaves the function.
\<close>

definition generateCoreForChip ::
  "runtime \<Rightarrow> jsstring \<Rightarrow> jsstring \<Rightarrow> jsstring option \<Rightarrow> world \<Rightarrow> (js_error + gen_result) \<times> world" where
  "generateCoreForChip rt chipNumber projectRoot version w =
     (case generateCoreForChip_try rt chipNumber projectRoot version w of
        (Inr result, w') \<Rightarrow> (Inr result, w')
      | (Inl error, w') \<Rightarrow>
          (Inr (failure_result (js ''Error processing '' @ chipNumber @ js '': '' @ err_message error)), w'))"

section \<open>generate-cores.js: discovering the chips\<close>

text \<open>\<open>/^([0-9]+)\.v$/\<close>, without flags.\<close>

definition chipFileRegex :: "atom list" where
  "chipFileRegex = [Bol, OpenGroup, OneOrMore isDigit, CloseGroup] @ lit ''.v'' @ [Eol]"

definition extractChipNumber :: "jsstring \<Rightarrow> jsstring option" where
  "extractChipNumber fileName =
     (case rx_exec False chipFileRegex fileName of
        Some m \<Rightarrow> if \<not> str_includes fileName (js ''-tb'') then Some m else None
      | None \<Rightarrow> None)"

text \<open>\<open>Set.prototype.add\<close>: a set keeps its elements in the order of their insertion.\<close>

definition set_add :: "jsstring \<Rightarrow> jsstring list \<Rightarrow> jsstring list" where
  "set_add x xs = (if x \<in> set xs then xs else xs @ [x])"

text \<open>The \<open>forEach\<close> of \<open>getAllChipNumbers\<close>, with the set it fills.\<close>

fun addChipNumbers :: "jsstring list \<Rightarrow> jsstring list \<Rightarrow> jsstring list" where
  "addChipNumbers [] chipNumbers = chipNumbers"
| "addChipNumbers (fileName # rest) chipNumbers =
     (if str_endsWith fileName (js ''.v'') \<and> \<not> str_includes fileName (js ''-tb.v'')
      then (case extractChipNumber fileName of
              Some chipNumber \<Rightarrow>
                if chipNumber \<noteq> [] then addChipNumbers rest (set_add chipNumber chipNumbers)
                else addChipNumbers rest chipNumbers
            | None \<Rightarrow> addChipNumbers rest chipNumbers)
      else addChipNumbers rest chipNumbers)"

definition chipNumbersOf :: "jsstring list \<Rightarrow> jsstring list" where
  "chipNumbersOf fileNames = sort (addChipNumbers fileNames [])"

definition getAllChipNumbers :: "jsstring \<Rightarrow> world \<Rightarrow> (js_error + jsstring list) \<times> world" where
  "getAllChipNumbers sourceDir w =
     (case readdirSync sourceDir w of
        (Inl e, w1) \<Rightarrow> (Inl e, w1)
      | (Inr fileNames, w1) \<Rightarrow> (Inr (chipNumbersOf fileNames), w1))"

section \<open>test-core.js: running the simulation of one core\<close>

definition isFuseSoCAvailable :: "world \<Rightarrow> bool \<times> world" where
  "isFuseSoCAvailable w =
     (case execSync_ignore (js ''which fusesoc'') w of
        (Inr u, w1) \<Rightarrow> (True, w1)
      | (Inl error, w1) \<Rightarrow> (False, w1))"

definition getFullCoreName :: "runtime \<Rightarrow> jsstring \<Rightarrow> jsstring \<Rightarrow> world \<Rightarrow> (js_error + jsstring) \<times> world" where
  "getFullCoreName rt chipNumber projectRoot w =
     (case getVersionFromPackageJson rt projectRoot w of
        (Inl e, w1) \<Rightarrow> (Inl e, w1)
      | (Inr version, w1) \<Rightarrow>
          (case toStr rt version of
             Inl e \<Rightarrow> (Inl e, w1)
           | Inr versionText \<Rightarrow> (Inr (js ''icechips:ttl:'' @ chipNumber @ js '':'' @ versionText), w1)))"

definition coreFileExists :: "runtime \<Rightarrow> jsstring \<Rightarrow> jsstring \<Rightarrow> world \<Rightarrow> bool \<times> world" where
  "coreFileExists rt chipNumber projectRoot w =
     (let coreFileName = js ''icechips_'' @ chipNumber @ js ''.core'';
          coreFilePath = path_join rt projectRoot coreFileName
      in existsSync coreFilePath w)"

definition parseCoreName :: "runtime \<Rightarrow> jsstring \<Rightarrow> jsstring \<Rightarrow> world \<Rightarrow> (js_error + jsstring) \<times> world" where
  "parseCoreName rt input projectRoot w =
     (if str_includes input (js '':'') then (Inr input, w)
      else
        (let chipNumber = input;
             (found, w1) = coreFileExists rt chipNumber projectRoot w
         in if \<not> found
            then (Inl (Error (js ''Core file not found for chip '' @ chipNumber @ js ''. '' @
                              js ''Expected: icechips_'' @ chipNumber @ js ''.core'')), w1)
            else getFullCoreName rt chipNumber projectRoot w1))"

record sim_result =
  sim_success :: bool
  sim_output :: "jsstring option"
  sim_message :: jsstring

text \<open>\<open>a || b\<close> on values that are a string or \<open>undefined\<close>.\<close>

definition or_else :: "jsstring option \<Rightarrow> jsstring option \<Rightarrow> jsstring option" where
  "or_else a b = (case a of None \<Rightarrow> b | Some s \<Rightarrow> if s \<noteq> [] then Some s else b)"

fun err_stdout :: "js_error \<Rightarrow> jsstring option" where
  "err_stdout (ExecError m out err) = out"
| "err_stdout e = None"

fun err_stderr :: "js_error \<Rightarrow> jsstring option" where
  "err_stderr (ExecError m out err) = err"
| "err_stderr e = None"

definition sim_command :: "jsstring \<Rightarrow> jsstring" where
  "sim_command coreName = js ''fusesoc run --target=sim '' @ coreName"

definition runFuseSoCSim :: "jsstring \<Rightarrow> bool \<Rightarrow> world \<Rightarrow> sim_result \<times> world" where
  "runFuseSoCSim coreName verbose w =
     (let command = sim_command coreName;
          w1 = (if verbose then console_log (js ''Running: '' @ command) w else w);
          (ran, w2) =
            (if verbose
             then (case execSync_inherit command w1 of (r, w') \<Rightarrow> (map_sum id (\<lambda>u. None) r, w'))
             else (case execSync_pipe command w1 of (r, w') \<Rightarrow> (map_sum id Some r, w')))
      in case ran of
           Inr output \<Rightarrow>
             (\<lparr>sim_success = True, sim_output = output,
               sim_message = js ''Simulation completed successfully for '' @ coreName\<rparr>, w2)
         | Inl error \<Rightarrow>
             (\<lparr>sim_success = False,
               sim_output = or_else (or_else (err_stdout error) (err_stderr error)) (Some (err_message error)),
               sim_message = js ''Simulation failed for '' @ coreName @ js '': '' @ err_message error\<rparr>, w2))"

definition console_logs :: "jsstring list \<Rightarrow> world \<Rightarrow> world" where
  "console_logs ls w = fold console_log ls w"

definition console_errors :: "jsstring list \<Rightarrow> world \<Rightarrow> world" where
  "console_errors ls w = fold console_error ls w"

definition fusesoc_missing :: "jsstring list" where
  "fusesoc_missing =
     [js ''Error: fusesoc command not found.'', [],
      js ''Please install FuseSoC and ensure it is in your PATH.'',
      js ''FuseSoC can be installed with: pip install fusesoc'']"

text \<open>The option \<open>--verbose\<close> or \<open>-v\<close>, as both test scripts read it from their arguments.\<close>

definition verbose_option :: "jsstring list \<Rightarrow> bool" where
  "verbose_option args = (js ''--verbose'' \<in> set args \<or> js ''-v'' \<in> set args)"

text \<open>
  \<open>main\<close> of \<open>test-core.js\<close>, on the arguments after the script name. The project root
  is what the script computes from its own location. The result is the exit status.
\<close>

definition test_core_main :: "runtime \<Rightarrow> jsstring \<Rightarrow> jsstring list \<Rightarrow> world \<Rightarrow> nat \<times> world" where
  "test_core_main rt projectRoot args w =
     (case args of
        [] \<Rightarrow>
          (1, console_errors
                [js ''Usage: node test-core.js <core-name> [--verbose]'',
                 js ''  <core-name> can be:'',
                 js ''    - Full core name: icechips:ttl:74161:0.9.2'',
                 js ''    - Chip number: 74161'',
                 [],
                 js ''Example: node test-core.js 74161'',
                 js ''Example: node test-core.js icechips:ttl:74161:0.9.2 --verbose''] w)
      | coreNameInput # others \<Rightarrow>
          (let (available, w1) = isFuseSoCAvailable w
           in if \<not> available then (1, console_errors fusesoc_missing w1)
              else
          (let verbose = verbose_option args
           in case parseCoreName rt coreNameInput projectRoot w1 of
                (Inl error, w2) \<Rightarrow> (1, console_error (js ''Error: '' @ err_message error) w2)
              | (Inr coreName, w2) \<Rightarrow>
          (let w3 = (if verbose then console_logs [js ''Core name: '' @ coreName, []] w2 else w2);
               (result, w4) = runFuseSoCSim coreName verbose w3
           in if sim_success result
              then
                (let w5 = (case sim_output result of
                             Some text \<Rightarrow> if \<not> verbose \<and> text \<noteq> [] then console_log text w4 else w4
                           | None \<Rightarrow> w4)
                 in (0, console_log (sim_message result) w5))
              else
                (let w5 = console_error (sim_message result) w4
                 in (1, case sim_output result of
                          Some text \<Rightarrow>
                            if text \<noteq> [] then console_errors [[], js ''Output:'', text] w5 else w5
                        | None \<Rightarrow> w5))))))"

section \<open>Counting successes and failures\<close>

text \<open>
  The three local variables both bulk scripts keep while they go through their items:
  \<open>successCount\<close>, \<open>failureCount\<close> and the array \<open>failures\<close>.
\<close>

record 'f tally =
  successCount :: nat
  failureCount :: nat
  failures :: "'f list"

definition no_tally :: "'f tally" where
  "no_tally = \<lparr>successCount = 0, failureCount = 0, failures = []\<rparr>"

section \<open>generate-cores.js: generating every core file\<close>

text \<open>
  The \<open>forEach\<close> of \<open>main\<close>. An exception leaving \<open>generateCoreForChip\<close> would end
  the loop and the process.
\<close>

fun generate_each ::
  "runtime \<Rightarrow> jsstring \<Rightarrow> jsstring option \<Rightarrow> jsstring list \<Rightarrow> (jsstring \<times> jsstring) tally \<Rightarrow> world
     \<Rightarrow> (js_error + (jsstring \<times> jsstring) tally) \<times> world" where
  "generate_each rt projectRoot version [] t w = (Inr t, w)"
| "generate_each rt projectRoot version (chipNumber # rest) t w =
     (case generateCoreForChip rt chipNumber projectRoot version w of
        (Inl e, w1) \<Rightarrow> (Inl e, w1)
      | (Inr result, w1) \<Rightarrow>
          if success result
          then generate_each rt projectRoot version rest
                 (t\<lparr>successCount := successCount t + 1\<rparr>)
                 (console_log ([0x2713] @ js '' '' @ chipNumber @ js '': '' @ message result) w1)
          else generate_each rt projectRoot version rest
                 (t\<lparr>failureCount := failureCount t + 1,
                    failures := failures t @ [(chipNumber, message result)]\<rparr>)
                 (console_error ([0x2717] @ js '' '' @ chipNumber @ js '': '' @ message result) w1))"

text \<open>
  \<open>main\<close> of \<open>generate-cores.js\<close>. \<open>Inl\<close> is an exception nothing catches, \<open>Inr\<close>
  the exit status (0 when \<open>main\<close> returns).
\<close>

definition generate_cores_main ::
  "runtime \<Rightarrow> jsstring \<Rightarrow> jsstring list \<Rightarrow> world \<Rightarrow> (js_error + nat) \<times> world" where
  "generate_cores_main rt projectRoot args w =
     (let version = (case args of [] \<Rightarrow> None | a # others \<Rightarrow> if a \<noteq> [] then Some a else None);
          sourceDir = path_join rt projectRoot (js ''source-7400'');
          (present, w1) = existsSync sourceDir w
      in if \<not> present
         then (Inr 1, console_error (js ''Error: Source directory not found: '' @ sourceDir) w1)
         else
     (case getAllChipNumbers sourceDir w1 of
        (Inl e, w2) \<Rightarrow> (Inl e, w2)
      | (Inr chipNumbers, w2) \<Rightarrow>
          if length chipNumbers = 0
          then (Inr 1, console_error (js ''Error: No chip files found in source-7400 directory'') w2)
          else
     (let w3 = console_logs
                 [js ''Found '' @ showNat (length chipNumbers) @ js '' chips to process:'',
                  joinWith (js '', '') chipNumbers, []] w2
      in case generate_each rt projectRoot version chipNumbers no_tally w3 of
           (Inl e, w4) \<Rightarrow> (Inl e, w4)
         | (Inr t, w4) \<Rightarrow>
     (let w5 = console_logs
                 [[], js ''Summary:'', js ''  Success: '' @ showNat (successCount t),
                  js ''  Failed:  '' @ showNat (failureCount t)] w4
      in if length (failures t) > 0
         then (Inr 1,
               console_errors (map (\<lambda>(chipNumber, m). js ''  '' @ chipNumber @ js '': '' @ m) (failures t))
                 (console_logs [[], js ''Failures:''] w5))
         else (Inr 0, w5)))))"

section \<open>test-cores.js: running the simulation of every core\<close>

text \<open>\<open>/^(icechips:ttl:[^\s:]+)/\<close>, without flags; \<open>isNameChar\<close> is the class \<open>[^\s:]\<close>.\<close>

definition isNameChar :: "jschar \<Rightarrow> bool" where
  "isNameChar c = (\<not> isSpace c \<and> c \<noteq> of_char CHR '':'')"

definition coreNameRegex :: "atom list" where
  "coreNameRegex = [Bol, OpenGroup] @ lit ''icechips:ttl:'' @ [OneOrMore isNameChar, CloseGroup]"

text \<open>The \<open>for\<close> loop of \<open>getAllIceChipsCores\<close> over the lines of the listing.\<close>

fun collectCores :: "jsstring list \<Rightarrow> jsstring list" where
  "collectCores [] = []"
| "collectCores (line # lines) =
     (if str_includes line (js ''icechips:ttl:'')
      then (case rx_exec False coreNameRegex line of
              Some m \<Rightarrow> m # collectCores lines
            | None \<Rightarrow> collectCores lines)
      else collectCores lines)"

definition coresOfListing :: "jsstring \<Rightarrow> jsstring list" where
  "coresOfListing output = sort (collectCores (splitOn 0x0A [] output))"

definition getAllIceChipsCores :: "world \<Rightarrow> (js_error + jsstring list) \<times> world" where
  "getAllIceChipsCores w =
     (case execSync_pipe (js ''fusesoc list-cores'') w of
        (Inl error, w1) \<Rightarrow> (Inl (Error (js ''Failed to list cores: '' @ err_message error)), w1)
      | (Inr output, w1) \<Rightarrow> (Inr (coresOfListing output), w1))"

definition filterCores :: "jsstring list \<Rightarrow> jsstring option \<Rightarrow> jsstring list" where
  "filterCores cores pattern =
     (case pattern of
        None \<Rightarrow> cores
      | Some pat \<Rightarrow> if pat = [] then cores else filter (\<lambda>core. str_includes core pat) cores)"

text \<open>\<open>Array.prototype.indexOf\<close>, with \<open>None\<close> for \<open>-1\<close>.\<close>

fun indexOf :: "'a list \<Rightarrow> 'a \<Rightarrow> nat option" where
  "indexOf [] y = None"
| "indexOf (x # xs) y = (if x = y then Some 0 else map_option Suc (indexOf xs y))"

text \<open>
  The \<open>forEach\<close> of \<open>main\<close>: \<open>len\<close> is \<open>cores.length\<close>, \<open>index\<close> the index of the
  first core still to be tested. A failure is recorded with the name of the core, the
  message and the output of the simulation.
\<close>

fun test_each ::
  "bool \<Rightarrow> nat \<Rightarrow> nat \<Rightarrow> jsstring list \<Rightarrow> (jsstring \<times> jsstring \<times> jsstring option) tally \<Rightarrow> world
     \<Rightarrow> (jsstring \<times> jsstring \<times> jsstring option) tally \<times> world" where
  "test_each verbose len index [] t w = (t, w)"
| "test_each verbose len index (coreName # rest) t w =
     (let progress = js ''['' @ showNat (index + 1) @ js ''/'' @ showNat len @ js '']'';
          w1 = (if verbose then console_log (progress @ js '' Testing '' @ coreName @ js ''...'') w
                else stdout_write (progress @ js '' '' @ coreName @ js ''... '') w);
          (result, w2) = runFuseSoCSim coreName verbose w1;
          t' = (if sim_success result then t\<lparr>successCount := successCount t + 1\<rparr>
                else t\<lparr>failureCount := failureCount t + 1,
                       failures := failures t @ [(coreName, sim_message result, sim_output result)]\<rparr>);
          w3 = (if sim_success result
                then (if verbose
                      then console_log (progress @ js '' '' @ [0x2713] @ js '' '' @ coreName @ js '': '' @
                                        sim_message result) w2
                      else console_log [0x2713] w2)
                else (if verbose
                      then (let w' = console_error (progress @ js '' '' @ [0x2717] @ js '' '' @ coreName @
                                                    js '': '' @ sim_message result) w2
                            in case sim_output result of
                                 Some text \<Rightarrow> if text \<noteq> [] then console_error text w' else w'
                               | None \<Rightarrow> w')
                      else console_log [0x2717] w2));
          w4 = (if verbose then console_log [] w3 else w3)
      in test_each verbose len (index + 1) rest t' w4)"

text \<open>The option \<open>--filter\<close>, as \<open>main\<close> reads it from its arguments.\<close>

definition filter_option :: "jsstring list \<Rightarrow> jsstring option" where
  "filter_option args =
     (case indexOf args (js ''--filter'') of
        None \<Rightarrow> None
      | Some filterIndex \<Rightarrow>
          if filterIndex + 1 < length args \<and> args ! (filterIndex + 1) \<noteq> []
          then Some (args ! (filterIndex + 1)) else None)"

text \<open>
  \<open>main\<close> of \<open>test-cores.js\<close>; the result is the exit status (0 when \<open>main\<close>
  returns). \<open>test_cores_run\<close> is the part of \<open>main\<close> that follows the choice of the
  cores: the announcement, the loop and the summary.
\<close>

definition test_cores_run :: "bool \<Rightarrow> jsstring list \<Rightarrow> world \<Rightarrow> nat \<times> world" where
  "test_cores_run verbose cores w2 =
     (let w3 = console_log (js ''Found '' @ showNat (length cores) @ js '' icechips core(s) to test:'') w2;
          w4 = (if verbose \<or> length cores \<le> 10
                then console_logs (map (\<lambda>core. js ''  '' @ core) cores) w3
                else console_log (js ''  '' @ hd cores @ js '' ... '' @ last cores) w3);
          w5 = console_log [] w4;
          (t, w6) = test_each verbose (length cores) 0 cores no_tally w5;
          w7 = console_logs
                 [[], js ''Summary:'', js ''  Total:   '' @ showNat (length cores),
                  js ''  Success: '' @ showNat (successCount t),
                  js ''  Failed:  '' @ showNat (failureCount t)] w6
      in if length (failures t) > 0
         then (1, console_errors (map (\<lambda>(coreName, m, output). js ''  '' @ coreName @ js '': '' @ m) (failures t))
                    (console_logs [[], js ''Failures:''] w7))
         else (0, console_logs [[], js ''All cores passed!''] w7))"

definition test_cores_main :: "jsstring list \<Rightarrow> world \<Rightarrow> nat \<times> world" where
  "test_cores_main args w =
     (let verbose = verbose_option args;
          filterPattern = filter_option args;
          (available, w1) = isFuseSoCAvailable w
      in if \<not> available then (1, console_errors fusesoc_missing w1)
         else
     (case getAllIceChipsCores w1 of
        (Inl error, w2) \<Rightarrow> (1, console_error (js ''Error: '' @ err_message error) w2)
      | (Inr found, w2) \<Rightarrow>
          if length found = 0
          then (1, console_errors
                     [js ''Error: No icechips cores found.'',
                      js ''Make sure core files are in the project root and fusesoc.conf is configured.''] w2)
          else
     (case filterPattern of
        None \<Rightarrow> test_cores_run verbose found w2
      | Some pat \<Rightarrow>
          (let cores = filterCores found (Some pat)
           in if length cores = 0
              then (1, console_error (js ''Error: No cores match filter pattern: '' @ pat) w2)
              else test_cores_run verbose cores w2))))"

section \<open>The manifest of the specification\<close>

text \<open>
  Following the spec (section 6, generated manifest file): the lines of the manifest with
  the four values at their places, each line ended by a line feed.
\<close>

definition spec_manifest :: "jsstring \<Rightarrow> jsstring \<Rightarrow> jsstring \<Rightarrow> jsstring \<Rightarrow> jsstring" where
  "spec_manifest chipIdentifier version rtlModuleName tbModuleName =
     concat (map (\<lambda>line. line @ js ''\<newline>'')
       [js ''CAPI=2:'',
        js ''name: icechips:ttl:'' @ chipIdentifier @ js '':'' @ version,
        [],
        js ''# Note: File order matters for iverilog! RTL must come last because'',
        js ''# the testbench instantiates the DUT module, so the module must be'',
        js ''# defined before instantiation. Iverilog processes files sequentially'',
        js ''# and doesn't do multiple passes.'',
        js ''# Macro dependencies must also be defined first.'',
        [],
        js ''filesets:'',
        js ''  rtl:'',
        js ''    files:'',
        js ''      - includes/helper.v'',
        js ''      - source-7400/'' @ chipIdentifier @ js ''.v'',
        js ''    file_type: verilogSource'',
        [],
        js ''  tb:'',
        js ''    files:'',
        js ''      - includes/tbhelper.v'',
        js ''      - source-7400/'' @ chipIdentifier @ js ''-tb.v'',
        js ''    file_type: verilogSource'',
        [],
        js ''targets:'',
        js ''  default:'',
        js ''    filesets: [rtl]'',
        js ''    toplevel: '' @ rtlModuleName,
        js ''  sim:'',
        js ''    filesets: [tb, rtl]'',
        js ''    toplevel: '' @ tbModuleName,
        js ''    default_tool: icarus'',
        js ''    tools:'',
        js ''      icarus: {iverilog_options: [-g2012]}''])"

section \<open>An example project\<close>

text \<open>
  The platform and the world the theorems are tried on. \<open>path.join\<close> is given on a
  directory and a plain name, \<open>JSON.parse\<close> on the four manifests of the example (it
  rejects every other text), and no example renders a number. The project \<open>/proj\<close> has
  version 0.9.2, two chips with their testbenches and a stray \<open>readme.v\<close>; the manifest of
  \<open>/bare\<close> has no version, that of \<open>/blank\<close> an empty one, \<open>/void\<close> has no
  manifest, a directory stands in the place of that of \<open>/knot\<close>, and in \<open>/odd\<close> the
  version is an object with a property \<open>toString\<close>, next to the sources of one chip.
  In \<open>/bare\<close> chip 7400 declares no module, the source of chip 7402 cannot be
  read, a directory stands where the core file of chip 7404 would be written, and chip 7408
  has no testbench. Five cores are registered, and the simulations of two of them fail.
\<close>

definition example_runtime :: runtime where
  \<open>example_runtime =
     \<lparr>path_join = (\<lambda>dir name. dir @ js ''/'' @ name),
      JSON_parse = (\<lambda>text.
         if text = js ''{"version": "0.9.2"}'' then Inr (JObj [(js ''version'', JStr (js ''0.9.2''))])
         else if text = js ''{"version": ""}'' then Inr (JObj [(js ''version'', JStr [])])
         else if text = js ''{}'' then Inr (JObj [])
         else if text = js ''{"version": {"toString": "1"}}''
         then Inr (JObj [(js ''version'', JObj [(js ''toString'', JStr (js ''1''))])])
         else Inl (SyntaxError (js ''Unexpected token''))),
      Number_toString = (\<lambda>n. [])\<rparr>\<close>

definition example_files :: "jsstring \<Rightarrow> entry option" where
  \<open>example_files =
     [js ''/proj/package.json'' \<mapsto> File (js ''{"version": "0.9.2"}''),
      js ''/bare/package.json'' \<mapsto> File (js ''{}''),
      js ''/blank/package.json'' \<mapsto> File (js ''{"version": ""}''),
      js ''/proj/source-7400'' \<mapsto>
        Dir [js ''74161.v'', js ''74161-tb.v'', js ''7400.v'', js ''7400-tb.v'', js ''readme.v''],
      js ''/proj/source-7400/74161.v'' \<mapsto>
        File (js ''// 4-bit counter\<newline>module ttl_74161 #(parameter WIDTH = 4)\<newline>(input Clk);\<newline>endmodule\<newline>''),
      js ''/proj/source-7400/74161-tb.v'' \<mapsto> File (js ''module test;\<newline>endmodule\<newline>''),
      js ''/proj/source-7400/7400.v'' \<mapsto> File (js ''module ttl_7400(input A);\<newline>endmodule\<newline>''),
      js ''/proj/source-7400/7400-tb.v'' \<mapsto> File (js ''module test;\<newline>endmodule\<newline>''),
      js ''/proj/source-7400/readme.v'' \<mapsto> File (js ''notes\<newline>''),
      js ''/bare/source-7400/7400.v'' \<mapsto> File (js ''// no declaration\<newline>''),
      js ''/bare/source-7400/7400-tb.v'' \<mapsto> File (js ''module test;\<newline>''),
      js ''/bare/source-7400/7402.v'' \<mapsto> Unreadable,
      js ''/bare/source-7400/7402-tb.v'' \<mapsto> File (js ''module test;\<newline>''),
      js ''/bare/source-7400/7404.v'' \<mapsto> File (js ''module ttl_7404(input A);\<newline>''),
      js ''/bare/source-7400/7404-tb.v'' \<mapsto> File (js ''module test;\<newline>''),
      js ''/bare/icechips_7404.core'' \<mapsto> Dir [],
      js ''/bare/source-7400/7408.v'' \<mapsto> File (js ''module ttl_7408(input A);\<newline>''),
      js ''/knot/package.json'' \<mapsto> Dir [],
      js ''/odd/package.json'' \<mapsto> File (js ''{"version": {"toString": "1"}}''),
      js ''/odd/source-7400/7404.v'' \<mapsto> File (js ''module ttl_7404(input A);\<newline>''),
      js ''/odd/source-7400/7404-tb.v'' \<mapsto> File (js ''module test;\<newline>'')]\<close>

definition example_listing :: jsstring where
  "example_listing =
     js ''Available cores:\<newline>'' @
     js ''icechips:ttl:7400:0.9.2 : local\<newline>'' @
     js ''icechips:ttl:7402:0.9.2 : local\<newline>'' @
     js ''icechips:ttl:7404:0.9.2 : local\<newline>'' @
     js ''icechips:ttl:7408:0.9.2 : local\<newline>'' @
     js ''icechips:ttl:74161:0.9.2 : local\<newline>''"

definition example_shell :: "jsstring \<Rightarrow> js_error + jsstring" where
  "example_shell cmd =
     (if cmd = js ''which fusesoc'' then Inr (js ''/usr/bin/fusesoc\<newline>'')
      else if cmd = js ''fusesoc list-cores'' then Inr example_listing
      else if cmd = js ''fusesoc run --target=sim icechips:ttl:7402''
            \<or> cmd = js ''fusesoc run --target=sim icechips:ttl:7408''
      then Inl (ExecError (js ''Command failed: '' @ cmd) (Some (js ''FAIL\<newline>'')) (Some []))
      else Inr (js ''PASS\<newline>''))"

definition example_world :: world where
  "example_world =
     \<lparr>files = example_files, write_error = (\<lambda>p. None), shell = example_shell,
      trace = [], console = []\<rparr>"


section \<open>Notions used in the statements and proofs\<close>

text \<open>The code unit before the current position once the matcher has read \<open>xs\<close>.\<close>

definition prev_after :: "jschar option \<Rightarrow> jsstring \<Rightarrow> jschar option" where
  "prev_after prev xs = (if xs = [] then prev else Some (last xs))"

text \<open>
  What \<open>moduleRegex\<close> finds when it is tried at the start of \<open>s\<close>, read off from left to
  right without backtracking: white space, \<open>module\<close>, white space, the longest run of
  word characters, white space, and one of \<open>#\<close>, \<open>(\<close>, \<open>;\<close>.
\<close>

definition decl_at :: "jsstring \<Rightarrow> jsstring option" where
  "decl_at s =
     (let s1 = dropWhile isSpace s;
          s2 = drop 6 s1;
          s3 = dropWhile isSpace s2;
          s4 = dropWhile isSpace (dropWhile isWord s3)
      in if prefix (js ''module'') s1 \<and> takeWhile isSpace s2 \<noteq> [] \<and> takeWhile isWord s3 \<noteq> [] \<and>
            (case s4 of [] \<Rightarrow> False | d # ds \<Rightarrow> isDeclEnd d)
         then Some (takeWhile isWord s3) else None)"

text \<open>
  A module declaration of \<open>name\<close> begins at the start of \<open>s\<close>: optional white space, the
  keyword \<open>module\<close>, white space, the identifier \<open>name\<close> of word characters, optional white
  space, and one of \<open>#\<close>, \<open>(\<close>, \<open>;\<close>.
\<close>

definition declaration_at :: "jsstring \<Rightarrow> jsstring \<Rightarrow> bool" where
  "declaration_at s name =
     (\<exists>ind sp gap d post.
        s = ind @ js ''module'' @ sp @ name @ gap @ d # post \<and>
        list_all isSpace ind \<and> sp \<noteq> [] \<and> list_all isSpace sp \<and>
        name \<noteq> [] \<and> list_all isWord name \<and> list_all isSpace gap \<and> isDeclEnd d)"

text \<open>
  The position after \<open>a\<close> is the start of a line, for the flag \<open>m\<close>, when \<open>prev\<close>
  stands before \<open>a\<close>.
\<close>

definition line_start :: "jschar option \<Rightarrow> jsstring \<Rightarrow> bool" where
  "line_start prev a = (case prev_after prev a of None \<Rightarrow> True | Some c \<Rightarrow> isLineTerminator c)"

text \<open>
  The form of a core name without its version: \<open>icechips:ttl:\<close> and a non-empty
  identifier free of white space and colons.
\<close>

definition core_shape :: "jsstring \<Rightarrow> bool" where
  "core_shape c = (\<exists>ident. c = js ''icechips:ttl:'' @ ident \<and> ident \<noteq> [] \<and> list_all isNameChar ident)"

text \<open>Whether the simulation of a core fails, given the outcome of each command.\<close>

definition sim_fails :: "(jsstring \<Rightarrow> js_error + jsstring) \<Rightarrow> jsstring \<Rightarrow> bool" where
  "sim_fails sh coreName = isl (sh (sim_command coreName))"

section \<open>The matcher on greedy quantifiers\<close>

lemma rx_star_greedy:
  assumes rej: "\<And>x xs prev rec acc. p x \<Longrightarrow> rx_match ml r prev (x # xs) rec acc = None"
  shows "rx_match ml (ZeroOrMore p # r) prev s rec acc =
         rx_match ml r (prev_after prev (takeWhile p s)) (dropWhile p s) rec
           (if rec then acc @ takeWhile p s else acc)"
proof (induction s arbitrary: prev acc)
  case Nil
  show ?case by (simp add: prev_after_def)
next
  case (Cons x xs)
  show ?case
  proof (cases "p x")
    case True
    have "rx_match ml (ZeroOrMore p # r) prev (x # xs) rec acc =
          rx_match ml (ZeroOrMore p # r) (Some x) xs rec (if rec then acc @ [x] else acc)"
      using True rej[OF True] by (simp split: option.splits)
    also have "\<dots> = rx_match ml r (prev_after (Some x) (takeWhile p xs)) (dropWhile p xs) rec
           (if rec then (if rec then acc @ [x] else acc) @ takeWhile p xs else (if rec then acc @ [x] else acc))"
      by (rule Cons.IH)
    finally show ?thesis using True by (simp add: prev_after_def)
  next
    case False
    then show ?thesis by (simp add: prev_after_def)
  qed
qed

lemma rx_plus_greedy:
  assumes rej: "\<And>x xs prev rec acc. p x \<Longrightarrow> rx_match ml r prev (x # xs) rec acc = None"
  shows "rx_match ml (OneOrMore p # r) prev s rec acc =
         (if takeWhile p s = [] then None
          else rx_match ml r (Some (last (takeWhile p s))) (dropWhile p s) rec
                 (if rec then acc @ takeWhile p s else acc))"
proof (cases s)
  case Nil
  then show ?thesis by simp
next
  case (Cons x xs)
  show ?thesis
  proof (cases "p x")
    case True
    then show ?thesis
      unfolding Cons by (simp add: rx_star_greedy[OF rej] prev_after_def)
  next
    case False
    then show ?thesis unfolding Cons by simp
  qed
qed

lemma rx_lit:
  "rx_match ml (lit cs @ r) prev s rec acc =
     (if prefix (js cs) s
      then rx_match ml r (prev_after prev (js cs)) (drop (length cs) s) rec
             (if rec then acc @ js cs else acc)
      else None)"
proof (induction cs arbitrary: prev s acc)
  case Nil
  show ?case by (simp add: lit_def js_def prev_after_def)
next
  case (Cons c cs)
  have IH: "\<And>prev s acc. rx_match ml (map (\<lambda>c. Class (\<lambda>x. x = of_char c)) cs @ r) prev s rec acc =
     (if prefix (js cs) s
      then rx_match ml r (prev_after prev (js cs)) (drop (length cs) s) rec
             (if rec then acc @ js cs else acc)
      else None)"
    using Cons.IH by (simp add: lit_def)
  show ?case
  proof (cases s)
    case Nil
    then show ?thesis by (simp add: lit_def js_def)
  next
    case (Cons x xs)
    then show ?thesis
      by (simp add: lit_def IH) (auto simp: js_def prev_after_def)
  qed
qed

lemma space_not_word: "isSpace x \<Longrightarrow> \<not> isWord x"
  unfolding isSpace_def isWord_def isDigit_def
  by (auto simp: word_le_nat_alt)



lemma rej_end: "isSpace x \<Longrightarrow> rx_match ml [Class isDeclEnd] prev (x # xs) rec acc = None"
  by (auto simp: isSpace_def isDeclEnd_def)

lemma rej_close:
  "isWord x \<Longrightarrow>
   rx_match ml [CloseGroup, ZeroOrMore isSpace, Class isDeclEnd] prev (x # xs) rec acc = None"
  using space_not_word[of x] by (auto simp: isWord_def isDigit_def isDeclEnd_def)

lemma rej_open:
  "isSpace x \<Longrightarrow> rx_match ml (OpenGroup # OneOrMore isWord # r) prev (x # xs) rec acc = None"
  using space_not_word[of x] by simp

lemma rej_module:
  "isSpace x \<Longrightarrow> rx_match ml (lit ''module'' @ r) prev (x # xs) rec acc = None"
  by (auto simp: lit_def isSpace_def)

lemma rx_class_end:
  "rx_match ml [Class p] prev s rec acc =
     (case s of [] \<Rightarrow> None | d # ds \<Rightarrow> if p d then Some (if rec then acc @ [d] else acc) else None)"
  by (cases s) simp_all

lemma rx_tail:
  "rx_match ml [CloseGroup, ZeroOrMore isSpace, Class isDeclEnd] prev s rec acc =
   (case dropWhile isSpace s of [] \<Rightarrow> None | d # ds \<Rightarrow> if isDeclEnd d then Some acc else None)"
proof -
  have "rx_match ml [CloseGroup, ZeroOrMore isSpace, Class isDeclEnd] prev s rec acc =
        rx_match ml [ZeroOrMore isSpace, Class isDeclEnd] prev s False acc"
    by simp
  also have "\<dots> = rx_match ml [Class isDeclEnd] (prev_after prev (takeWhile isSpace s))
                     (dropWhile isSpace s) False acc"
    by (simp only: rx_star_greedy[of isSpace, OF rej_end] if_False)
  also have "\<dots> = (case dropWhile isSpace s of [] \<Rightarrow> None
                    | d # ds \<Rightarrow> if isDeclEnd d then Some acc else None)"
    by (simp only: rx_class_end if_False)
  finally show ?thesis .
qed

lemma rx_name:
  "rx_match ml [OneOrMore isSpace, OpenGroup, OneOrMore isWord, CloseGroup, ZeroOrMore isSpace,
      Class isDeclEnd] prev s False acc =
   (if takeWhile isSpace s = [] then None
    else if takeWhile isWord (dropWhile isSpace s) = [] then None
    else case dropWhile isSpace (dropWhile isWord (dropWhile isSpace s)) of [] \<Rightarrow> None
    | d # ds \<Rightarrow> if isDeclEnd d then Some (takeWhile isWord (dropWhile isSpace s)) else None)"
proof -
  have "rx_match ml [OneOrMore isSpace, OpenGroup, OneOrMore isWord, CloseGroup, ZeroOrMore isSpace,
      Class isDeclEnd] prev s False acc =
     (if takeWhile isSpace s = [] then None
      else rx_match ml [OneOrMore isWord, CloseGroup, ZeroOrMore isSpace, Class isDeclEnd]
             (Some (last (takeWhile isSpace s))) (dropWhile isSpace s) True [])"
    by (simp only: rx_plus_greedy[of isSpace, OF rej_open] rx_match.simps if_False)
  also have "\<dots> =
     (if takeWhile isSpace s = [] then None
      else if takeWhile isWord (dropWhile isSpace s) = [] then None
      else rx_match ml [CloseGroup, ZeroOrMore isSpace, Class isDeclEnd]
             (Some (last (takeWhile isWord (dropWhile isSpace s))))
             (dropWhile isWord (dropWhile isSpace s)) True (takeWhile isWord (dropWhile isSpace s)))"
    by (simp only: rx_plus_greedy[of isWord, OF rej_close] if_True append_Nil)
  finally show ?thesis by (simp only: rx_tail)
qed

lemma module_len: "length ''module'' = 6"
  by simp



lemma moduleRegex_step1:
  "rx_match True moduleRegex prev s False [] =
     (if (case prev of None \<Rightarrow> True | Some c \<Rightarrow> isLineTerminator c)
      then rx_match True (lit ''module'' @ [OneOrMore isSpace, OpenGroup, OneOrMore isWord, CloseGroup,
              ZeroOrMore isSpace, Class isDeclEnd])
             (prev_after prev (takeWhile isSpace s)) (dropWhile isSpace s) False []
      else None)"
  unfolding moduleRegex_def
  by (simp only: append_Cons append_Nil rx_match.simps rx_star_greedy[of isSpace, OF rej_module]
        if_False simp_thms)

lemma moduleRegex_step2:
  "rx_match True (lit ''module'' @ [OneOrMore isSpace, OpenGroup, OneOrMore isWord, CloseGroup,
       ZeroOrMore isSpace, Class isDeclEnd]) pv t False [] =
     (if prefix (js ''module'') t
      then rx_match True [OneOrMore isSpace, OpenGroup, OneOrMore isWord, CloseGroup,
             ZeroOrMore isSpace, Class isDeclEnd] (prev_after pv (js ''module'')) (drop 6 t) False []
      else None)"
  by (simp only: rx_lit if_False module_len)

lemma moduleRegex_step3:
  "(if prefix (js ''module'') t
    then rx_match True [OneOrMore isSpace, OpenGroup, OneOrMore isWord, CloseGroup,
           ZeroOrMore isSpace, Class isDeclEnd] pv (drop 6 t) False []
    else None) =
   (let s2 = drop 6 t;
        s3 = dropWhile isSpace s2;
        s4 = dropWhile isSpace (dropWhile isWord s3)
    in if prefix (js ''module'') t \<and> takeWhile isSpace s2 \<noteq> [] \<and> takeWhile isWord s3 \<noteq> [] \<and>
          (case s4 of [] \<Rightarrow> False | d # ds \<Rightarrow> isDeclEnd d)
       then Some (takeWhile isWord s3) else None)"
  unfolding rx_name Let_def
  by (simp del: dropWhile_eq_Nil_conv takeWhile_eq_Nil_iff split: list.split)

lemma moduleRegex_match:
  "rx_match True moduleRegex prev s False [] =
     (if (case prev of None \<Rightarrow> True | Some c \<Rightarrow> isLineTerminator c) then decl_at s else None)"
  unfolding moduleRegex_step1 moduleRegex_step2 moduleRegex_step3 decl_at_def Let_def
  by (rule refl)

lemma rx_search_hit:
  "rx_match ml re prev s False [] = Some c \<Longrightarrow> rx_search ml re prev s = Some c"
  by (cases s) simp_all

lemma rx_search_SomeD:
  "rx_search ml re prev s = Some c \<Longrightarrow> \<exists>pv t. suffix t s \<and> rx_match ml re pv t False [] = Some c"
proof (induction s arbitrary: prev)
  case Nil
  then show ?case by auto
next
  case (Cons x xs)
  show ?case
  proof (cases "rx_match ml re prev (x # xs) False []")
    case (Some a)
    with Cons.prems have "rx_match ml re prev (x # xs) False [] = Some c" by simp
    then show ?thesis by blast
  next
    case None
    with Cons.prems have "rx_search ml re (Some x) xs = Some c" by simp
    from Cons.IH[OF this] obtain pv t where "suffix t xs" "rx_match ml re pv t False [] = Some c"
      by blast
    then show ?thesis by (meson suffix_ConsI)
  qed
qed

lemma decl_at_prefix: "decl_at s = Some c \<Longrightarrow> prefix (js ''module'') (dropWhile isSpace s)"
  unfolding decl_at_def Let_def by (simp only: split: if_splits) simp

lemma decl_at_sublist: "decl_at s = Some c \<Longrightarrow> sublist (js ''module'') s"
proof -
  assume "decl_at s = Some c"
  then have "prefix (js ''module'') (dropWhile isSpace s)" by (rule decl_at_prefix)
  then have "sublist (js ''module'') (dropWhile isSpace s)" by (rule prefix_imp_sublist)
  moreover have "suffix (dropWhile isSpace s) s" by (rule suffix_dropWhile)
  ultimately show ?thesis by (meson sublist_order.order_trans suffix_imp_sublist)
qed

lemma no_keyword_no_match:
  assumes "\<not> sublist (js ''module'') text"
  shows "rx_exec True moduleRegex text = None"
proof (rule ccontr)
  assume "rx_exec True moduleRegex text \<noteq> None"
  then obtain c where "rx_search True moduleRegex None text = Some c"
    by (auto simp: rx_exec_def)
  from rx_search_SomeD[OF this] obtain pv t where
    t: "suffix t text" and m: "rx_match True moduleRegex pv t False [] = Some c" by blast
  from m have "decl_at t = Some c" by (simp add: moduleRegex_match split: if_splits)
  then have "sublist (js ''module'') t" by (rule decl_at_sublist)
  with t have "sublist (js ''module'') text"
    by (meson sublist_order.order_trans suffix_imp_sublist)
  with assms show False by simp
qed


lemma word_not_space: "isWord x \<Longrightarrow> \<not> isSpace x"
  using space_not_word by blast

lemma declEnd_not_space: "isDeclEnd x \<Longrightarrow> \<not> isSpace x"
  by (auto simp: isDeclEnd_def isSpace_def)

lemma declEnd_not_word: "isDeclEnd x \<Longrightarrow> \<not> isWord x"
  by (auto simp: isDeclEnd_def isWord_def isDigit_def)

lemma module_not_space: "x \<in> set (js ''module'') \<Longrightarrow> \<not> isSpace x"
  by (auto simp: js_def isSpace_def)

lemma module_not_terminator: "x \<in> set (js ''module'') \<Longrightarrow> \<not> isLineTerminator x"
  by (auto simp: js_def isLineTerminator_def)

lemma js_module_len: "length (js ''module'') = 6"
  by (simp add: js_def)

lemma dropWhile_all: "list_all P xs \<Longrightarrow> dropWhile P (xs @ ys) = dropWhile P ys"
  by (induction xs) auto

lemma takeWhile_all: "list_all P xs \<Longrightarrow> takeWhile P (xs @ ys) = xs @ takeWhile P ys"
  by (induction xs) auto

lemma decl_at_indent: "list_all isSpace u \<Longrightarrow> decl_at (u @ s) = decl_at s"
  by (simp only: decl_at_def dropWhile_all)

lemma decl_at_here:
  assumes sp: "sp \<noteq> []" "list_all isSpace sp"
    and name: "name \<noteq> []" "list_all isWord name"
    and gap: "list_all isSpace gap"
    and d: "isDeclEnd d"
  shows "decl_at (js ''module'' @ sp @ name @ gap @ d # post) = Some name"
proof -
  let ?tail = "gap @ d # post"
  have m: "dropWhile isSpace (js ''module'' @ sp @ name @ ?tail) = js ''module'' @ sp @ name @ ?tail"
    by (simp add: js_def isSpace_def)
  have d6: "drop 6 (js ''module'' @ sp @ name @ ?tail) = sp @ name @ ?tail"
    using js_module_len by simp
  obtain n ns where n: "name = n # ns" using name(1) by (cases name) auto
  then have nw: "isWord n" using name(2) by simp
  have t1: "takeWhile isSpace (sp @ name @ ?tail) \<noteq> []"
    using sp by (cases sp) auto
  have d1: "dropWhile isSpace (sp @ name @ ?tail) = name @ ?tail"
    using sp(2) n word_not_space[OF nw] by (simp add: dropWhile_all)
  have d2: "dropWhile isSpace ?tail = d # post"
    using gap declEnd_not_space[OF d] by (simp add: dropWhile_all)
  obtain y ys where y: "?tail = y # ys" "\<not> isWord y"
  proof (cases gap)
    case Nil
    then show ?thesis using that[of d post] declEnd_not_word[OF d] by simp
  next
    case (Cons g gs)
    then show ?thesis using that[of g "gs @ d # post"] gap space_not_word[of g] by simp
  qed
  have t2: "takeWhile isWord (name @ ?tail) = name"
    using name(2) y by (simp add: takeWhile_all)
  have d3: "dropWhile isWord (name @ ?tail) = ?tail"
    using name(2) y by (simp add: dropWhile_all)
  have p: "prefix (js ''module'') (js ''module'' @ sp @ name @ ?tail)" by simp
  show ?thesis
    unfolding decl_at_def Let_def m d6 d1 t2 d3 d2
    using p t1 name(1) d by simp
qed

lemma suffix_last: "suffix v u \<Longrightarrow> v \<noteq> [] \<Longrightarrow> last v = last u"
  by (auto simp: suffix_def)

lemma decl_at_before:
  assumes u: "u \<noteq> []" "isLineTerminator (last u)" and no: "\<not> sublist (js ''module'') u"
  shows "decl_at (u @ rest) = None \<or> decl_at (u @ rest) = decl_at rest"
proof (cases "list_all isSpace u")
  case True
  then show ?thesis by (simp only: decl_at_indent simp_thms)
next
  case False
  then obtain x where x: "x \<in> set u" "\<not> isSpace x" by (auto simp: list_all_iff)
  then have dw: "dropWhile isSpace (u @ rest) = dropWhile isSpace u @ rest"
    by (rule dropWhile_append1)
  let ?v = "dropWhile isSpace u"
  have v: "?v \<noteq> []" using x by (auto simp: dropWhile_eq_Nil_conv)
  have suf: "suffix ?v u" by (rule suffix_dropWhile)
  then have lastv: "last ?v = last u" using v by (rule suffix_last)
  have "\<not> prefix (js ''module'') (?v @ rest)"
  proof
    assume "prefix (js ''module'') (?v @ rest)"
    then consider "prefix (js ''module'') ?v"
      | us where "js ''module'' = ?v @ us"
      by (auto simp: prefix_append)
    then show False
    proof cases
      case 1
      then have "sublist (js ''module'') u"
        using suf by (meson prefix_imp_sublist sublist_order.order_trans suffix_imp_sublist)
      with no show False by simp
    next
      case 2
      then have "last ?v \<in> set (js ''module'')"
        using v by (metis last_in_set Un_iff set_append)
      with u(2) lastv show False using module_not_terminator by auto
    qed
  qed
  then have "decl_at (u @ rest) = None"
    unfolding decl_at_def Let_def dw by simp
  then show ?thesis by simp
qed

lemma search_first_decl:
  assumes rest: "decl_at rest = Some name"
  shows "\<not> sublist (js ''module'') pre \<Longrightarrow>
         (pre = [] \<longrightarrow> (case prev of None \<Rightarrow> True | Some c \<Rightarrow> isLineTerminator c)) \<Longrightarrow>
         (pre \<noteq> [] \<longrightarrow> isLineTerminator (last pre)) \<Longrightarrow>
         rx_search True moduleRegex prev (pre @ rest) = Some name"
proof (induction pre arbitrary: prev)
  case Nil
  then have "rx_match True moduleRegex prev rest False [] = Some name"
    using rest by (simp add: moduleRegex_match)
  then show ?case by (simp add: rx_search_hit)
next
  case (Cons x pre)
  have no': "\<not> sublist (js ''module'') pre"
    using Cons.prems(1) by (meson sublist_Cons_right)
  have lt: "isLineTerminator (last (x # pre))" using Cons.prems(3) by simp
  have next_ok: "rx_search True moduleRegex (Some x) (pre @ rest) = Some name"
  proof (rule Cons.IH[OF no'])
    show "pre = [] \<longrightarrow> (case Some x of None \<Rightarrow> True | Some c \<Rightarrow> isLineTerminator c)"
      using lt by auto
    show "pre \<noteq> [] \<longrightarrow> isLineTerminator (last pre)" using lt by auto
  qed
  have here: "decl_at ((x # pre) @ rest) = None \<or> decl_at ((x # pre) @ rest) = decl_at rest"
    by (rule decl_at_before[OF _ lt Cons.prems(1)]) simp
  then have "rx_match True moduleRegex prev (x # pre @ rest) False [] = None
           \<or> rx_match True moduleRegex prev (x # pre @ rest) False [] = Some name"
    using rest by (auto simp: moduleRegex_match)
  then show ?case using next_ok by auto
qed

section \<open>extractModuleName\<close>

lemma list_all_takeWhile: "list_all P (takeWhile P xs)"
  by (auto simp: list_all_iff dest: set_takeWhileD)

lemma dropWhile_head: "dropWhile P xs = y # ys \<Longrightarrow> \<not> P y"
  by (metis hd_dropWhile list.sel(1) list.distinct(1))

lemma decl_at_declaration:
  assumes "decl_at s = Some name"
  shows "declaration_at s name"
proof -
  let ?ind = "takeWhile isSpace s"
  let ?s1 = "dropWhile isSpace s"
  let ?s2 = "drop 6 ?s1"
  let ?sp = "takeWhile isSpace ?s2"
  let ?s3 = "dropWhile isSpace ?s2"
  let ?nm = "takeWhile isWord ?s3"
  let ?r = "dropWhile isWord ?s3"
  let ?gap = "takeWhile isSpace ?r"
  let ?s4 = "dropWhile isSpace ?r"
  from assms have c: "prefix (js ''module'') ?s1" "?sp \<noteq> []" "?nm \<noteq> []"
      "(case ?s4 of [] \<Rightarrow> False | d # ds \<Rightarrow> isDeclEnd d)" "name = ?nm"
    unfolding decl_at_def Let_def by (auto split: if_splits)
  from c(4) obtain d post where s4: "?s4 = d # post" and d: "isDeclEnd d"
    by (cases ?s4) auto
  from c(1) have "?s1 = js ''module'' @ ?s2"
    using js_module_len by (auto simp: prefix_def)
  then have "s = ?ind @ js ''module'' @ ?s2" by (metis takeWhile_dropWhile_id)
  also have "?s2 = ?sp @ ?s3" by simp
  also have "?s3 = ?nm @ ?r" by simp
  also have "?r = ?gap @ ?s4" by simp
  finally have "s = ?ind @ js ''module'' @ ?sp @ ?nm @ ?gap @ d # post"
    unfolding s4 .
  then show ?thesis
    unfolding declaration_at_def c(5)
    using c(2,3) d list_all_takeWhile[of isSpace] list_all_takeWhile[of isWord]
    by blast
qed

lemma declaration_decl_at:
  assumes "declaration_at s name"
  shows "decl_at s = Some name"
proof -
  from assms obtain ind sp gap d post where
    s: "s = ind @ js ''module'' @ sp @ name @ gap @ d # post" and
    h: "list_all isSpace ind" "sp \<noteq> []" "list_all isSpace sp" "name \<noteq> []" "list_all isWord name"
       "list_all isSpace gap" "isDeclEnd d"
    unfolding declaration_at_def by blast
  have "decl_at (js ''module'' @ sp @ name @ gap @ d # post) = Some name"
    using h by (intro decl_at_here)
  then show ?thesis unfolding s using h(1) by (simp only: decl_at_indent)
qed

lemma decl_at_iff: "decl_at s = Some name \<longleftrightarrow> declaration_at s name"
  using decl_at_declaration declaration_decl_at by blast

lemma no_declaration: "(\<forall>n. \<not> declaration_at s n) \<longleftrightarrow> decl_at s = None"
  using decl_at_iff[of s] by (cases "decl_at s") auto

lemma moduleRegex_at:
  "rx_match True moduleRegex prev s False [] = (if line_start prev [] then decl_at s else None)"
  by (simp add: moduleRegex_match line_start_def prev_after_def)

lemma line_start_Cons: "line_start prev (x # a) = line_start (Some x) a"
  by (simp add: line_start_def prev_after_def)

lemma search_no_declaration:
  "(\<And>a b. s = a @ b \<Longrightarrow> line_start prev a \<Longrightarrow> decl_at b = None) \<Longrightarrow>
   rx_search True moduleRegex prev s = None"
proof (induction s arbitrary: prev)
  case Nil
  from Nil[of "[]" "[]"] show ?case by (simp add: moduleRegex_at del: rx_match.simps)
next
  case (Cons x xs)
  have here: "rx_match True moduleRegex prev (x # xs) False [] = None"
    using Cons.prems[of "[]" "x # xs"] by (simp add: moduleRegex_at del: rx_match.simps)
  have "rx_search True moduleRegex (Some x) xs = None"
  proof (rule Cons.IH)
    fix a b assume "xs = a @ b" "line_start (Some x) a"
    then show "decl_at b = None"
      using Cons.prems[of "x # a" b] by (simp add: line_start_Cons)
  qed
  with here show ?case by simp
qed

lemma search_first_declaration:
  assumes rest: "decl_at rest = Some name"
  shows "line_start prev pre \<Longrightarrow>
         (\<And>a b. pre = a @ b \<Longrightarrow> b \<noteq> [] \<Longrightarrow> line_start prev a \<Longrightarrow> decl_at (b @ rest) = None) \<Longrightarrow>
         rx_search True moduleRegex prev (pre @ rest) = Some name"
proof (induction pre arbitrary: prev)
  case Nil
  then have "rx_match True moduleRegex prev rest False [] = Some name"
    using rest by (simp add: moduleRegex_at del: rx_match.simps)
  then show ?case by (simp add: rx_search_hit)
next
  case (Cons x pre)
  have here: "rx_match True moduleRegex prev (x # pre @ rest) False [] = None"
    using Cons.prems(2)[of "[]" "x # pre"] by (simp add: moduleRegex_at del: rx_match.simps)
  have "rx_search True moduleRegex (Some x) (pre @ rest) = Some name"
  proof (rule Cons.IH)
    show "line_start (Some x) pre" using Cons.prems(1) by (simp add: line_start_Cons)
    fix a b assume "pre = a @ b" "b \<noteq> []" "line_start (Some x) a"
    then show "decl_at (b @ rest) = None"
      using Cons.prems(2)[of "x # a" b] by (simp add: line_start_Cons)
  qed
  with here show ?case by simp
qed

lemma line_start_None: "line_start None a = (a = [] \<or> isLineTerminator (last a))"
  by (simp add: line_start_def prev_after_def)

text \<open>
  C2, as amended. \<open>extractModuleName\<close> returns the identifier of the first module
  declaration of the text: when a declaration of \<open>name\<close> begins at the start of a line and
  no declaration begins at an earlier start of a line, the result is \<open>name\<close>; so it is
  \<open>foo\<close> when that first declaration is \<open>module foo(\<close> and \<open>bar\<close> when it is
  \<open>module bar;\<close>, whatever stands before it. When no declaration begins at any start of
  a line, and in particular when \<open>module\<close> does not occur in the text, the result is
  \<open>null\<close>.
\<close>

theorem extractModuleName_first_declaration:
  "(text = pre @ rest \<and> (pre = [] \<or> isLineTerminator (last pre)) \<and> declaration_at rest name \<and>
    (\<forall>a b n. pre = a @ b \<and> b \<noteq> [] \<and> (a = [] \<or> isLineTerminator (last a))
       \<longrightarrow> \<not> declaration_at (b @ rest) n)
    \<longrightarrow> extractModuleName text = Some name) \<and>
   ((\<forall>a b n. text = a @ b \<and> (a = [] \<or> isLineTerminator (last a)) \<longrightarrow> \<not> declaration_at b n)
    \<longrightarrow> extractModuleName text = None) \<and>
   (\<not> str_includes text (js ''module'') \<longrightarrow> extractModuleName text = None)"
proof (intro conjI impI)
  assume h: "text = pre @ rest \<and> (pre = [] \<or> isLineTerminator (last pre)) \<and> declaration_at rest name \<and>
    (\<forall>a b n. pre = a @ b \<and> b \<noteq> [] \<and> (a = [] \<or> isLineTerminator (last a))
       \<longrightarrow> \<not> declaration_at (b @ rest) n)"
  then have rest: "decl_at rest = Some name" by (simp add: decl_at_iff)
  have "rx_search True moduleRegex None (pre @ rest) = Some name"
  proof (rule search_first_declaration[OF rest])
    show "line_start None pre" using h by (simp add: line_start_None)
    fix a b assume "pre = a @ b" "b \<noteq> []" "line_start None a"
    then have "\<forall>n. \<not> declaration_at (b @ rest) n" using h by (simp add: line_start_None)
    then show "decl_at (b @ rest) = None" by (simp add: no_declaration)
  qed
  with h show "extractModuleName text = Some name"
    by (simp add: extractModuleName_def rx_exec_def)
next
  assume h: "\<forall>a b n. text = a @ b \<and> (a = [] \<or> isLineTerminator (last a)) \<longrightarrow> \<not> declaration_at b n"
  have "rx_search True moduleRegex None text = None"
  proof (rule search_no_declaration)
    fix a b assume "text = a @ b" "line_start None a"
    then have "\<forall>n. \<not> declaration_at b n" using h by (simp add: line_start_None)
    then show "decl_at b = None" by (simp add: no_declaration)
  qed
  then show "extractModuleName text = None"
    by (simp add: extractModuleName_def rx_exec_def)
next
  assume "\<not> str_includes text (js ''module'')"
  then show "extractModuleName text = None"
    by (simp add: extractModuleName_def str_includes_def no_keyword_no_match)
qed

text \<open>Where a text has no line terminator before its last code unit, only its start is a line start.\<close>

lemma first_line_start:
  assumes "list_all (\<lambda>c. \<not> isLineTerminator c) (butlast s)" "s = a @ b" "b \<noteq> []"
    "a = [] \<or> isLineTerminator (last a)"
  shows "a = []"
proof (rule ccontr)
  assume a: "a \<noteq> []"
  then have "last a \<in> set a" by simp
  moreover have "butlast s = a @ butlast b" using assms(2,3) by (simp add: butlast_append)
  ultimately have "last a \<in> set (butlast s)" by simp
  with assms(1) have "\<not> isLineTerminator (last a)" by (simp add: list_all_iff)
  with assms(4) a show False by simp
qed

lemma only_line_start:
  assumes "list_all (\<lambda>c. \<not> isLineTerminator c) s" "s = a @ b" "a = [] \<or> isLineTerminator (last a)"
  shows "a = []"
proof (rule ccontr)
  assume a: "a \<noteq> []"
  then have "last a \<in> set s" using assms(2) by simp
  with assms(1) have "\<not> isLineTerminator (last a)" by (simp add: list_all_iff)
  with assms(3) a show False by simp
qed

text \<open>
  The theorem on a declaration after a comment line that mentions \<open>module\<close>, on a
  declaration at the start of the text, on a comment alone and on a text without the keyword.
\<close>

theorem extractModuleName_first_declaration_witness:
  "extractModuleName (js ''// module docs here\<newline>module foo('') = Some (js ''foo'') \<and>
   extractModuleName (js ''module bar;'') = Some (js ''bar'') \<and>
   extractModuleName (js ''// module docs'') = None \<and>
   extractModuleName (js ''wire w;'') = None"
proof -
  let ?pre = "js ''// module docs here\<newline>''"
  have "decl_at (js ''module foo('') = Some (js ''foo'')" "decl_at (js ''module bar;'') = Some (js ''bar'')"
    by (simp_all add: decl_at_def js_def isSpace_def isWord_def isDigit_def isDeclEnd_def Let_def)
  then have foo: "declaration_at (js ''module foo('') (js ''foo'')"
    and bar: "declaration_at (js ''module bar;'') (js ''bar'')"
    by (simp_all only: decl_at_iff)
  have pre: "isLineTerminator (last ?pre)" "list_all (\<lambda>c. \<not> isLineTerminator c) (butlast ?pre)"
    by (simp_all add: js_def isLineTerminator_def)
  have nodecl: "decl_at (?pre @ js ''module foo('') = None" "decl_at (js ''// module docs'') = None"
    by (simp_all add: decl_at_def js_def isSpace_def Let_def)
  have earlier: "\<forall>a b n. ?pre = a @ b \<and> b \<noteq> [] \<and> (a = [] \<or> isLineTerminator (last a))
       \<longrightarrow> \<not> declaration_at (b @ js ''module foo('') n"
  proof (intro allI impI)
    fix a b n
    assume h: "?pre = a @ b \<and> b \<noteq> [] \<and> (a = [] \<or> isLineTerminator (last a))"
    then have "a = []" using first_line_start[OF pre(2), of a b] by blast
    with h have "b = ?pre" by simp
    then show "\<not> declaration_at (b @ js ''module foo('') n"
      using nodecl(1) no_declaration[of "?pre @ js ''module foo(''"] by simp
  qed
  have split1: "js ''// module docs here\<newline>module foo('' = ?pre @ js ''module foo(''"
    by (simp add: js_def)
  have c1: "extractModuleName (js ''// module docs here\<newline>module foo('') = Some (js ''foo'')"
    using extractModuleName_first_declaration[of "js ''// module docs here\<newline>module foo(''" ?pre
        "js ''module foo(''" "js ''foo''"] split1 pre(1) foo earlier
    by blast
  have c2: "extractModuleName (js ''module bar;'') = Some (js ''bar'')"
    using extractModuleName_first_declaration[of "js ''module bar;''" "[]" "js ''module bar;''" "js ''bar''"] bar
    by simp
  have noterm: "list_all (\<lambda>c. \<not> isLineTerminator c) (js ''// module docs'')"
    by (simp add: js_def isLineTerminator_def)
  have none: "\<forall>a b n. js ''// module docs'' = a @ b \<and> (a = [] \<or> isLineTerminator (last a))
      \<longrightarrow> \<not> declaration_at b n"
  proof (intro allI impI)
    fix a b n
    assume h: "js ''// module docs'' = a @ b \<and> (a = [] \<or> isLineTerminator (last a))"
    then have "a = []" using only_line_start[OF noterm, of a b] by blast
    with h have "b = js ''// module docs''" by simp
    then show "\<not> declaration_at b n" using nodecl(2) no_declaration[of b] by simp
  qed
  have c3: "extractModuleName (js ''// module docs'') = None"
    using extractModuleName_first_declaration[of "js ''// module docs''"] none by blast
  have "\<not> str_includes (js ''wire w;'') (js ''module'')"
    by (simp add: str_includes_def js_def sublist_code)
  then have c4: "extractModuleName (js ''wire w;'') = None"
    using extractModuleName_first_declaration[of "js ''wire w;''"] by blast
  from c1 c2 c3 c4 show ?thesis by blast
qed

text \<open>
  The claim as stated fails: a text can contain the line \<open>module foo(\<close> after an earlier
  declaration, and the earlier one is returned.
\<close>

theorem extractModuleName_any_line_counterexample:
  "str_includes (js ''module bar;\<newline>module foo(\<newline>'') (js ''\<newline>module foo(\<newline>'') \<and>
   extractModuleName (js ''module bar;\<newline>module foo(\<newline>'') = Some (js ''bar'') \<and>
   extractModuleName (js ''module bar;\<newline>module foo(\<newline>'') \<noteq> Some (js ''foo'')"
  by code_simp

section \<open>The generated manifest\<close>

text \<open>
  C3. \<open>generateCoreFile\<close> is a function of its four arguments alone: it takes no world
  and returns none, so it performs no input or output and equal arguments give equal text.
  For every chip number, version and pair of module names its result is the manifest of
  the specification with the four values at their places.
\<close>

theorem generateCoreFile_is_spec_manifest:
  "generateCoreFile chipNumber version rtlModuleName tbModuleName =
   spec_manifest chipNumber version rtlModuleName tbModuleName"
  by (simp add: generateCoreFile_def spec_manifest_def js_def)

section \<open>Chip discovery\<close>

lemma rx_bol_later: "rx_match False (Bol # r) (Some x) s rec acc = None"
  by simp

lemma rx_search_anchored: "rx_search False (Bol # r) (Some x) s = None"
  by (induction s arbitrary: x) simp_all

lemma rx_exec_anchored: "rx_exec False (Bol # r) s = rx_match False (Bol # r) None s False []"
  unfolding rx_exec_def
  by (cases s) (simp_all add: rx_search_anchored split: option.split)

lemma rx_eol: "rx_match False [Eol] prev s rec acc = (if s = [] then Some acc else None)"
  by (cases s) simp_all

lemma rej_dot_v:
  "isDigit x \<Longrightarrow> rx_match ml (CloseGroup # lit ''.v'' @ r) prev (x # xs) rec acc = None"
  by (auto simp: lit_def isDigit_def)

lemma dot_v_len: "length ''.v'' = 2"
  by simp

lemma prefix_drop_all: "prefix p t \<and> drop (length p) t = [] \<longleftrightarrow> t = p"
  by (auto simp: prefix_def)

lemma rx_close_lit_eol:
  "rx_match False (CloseGroup # lit cs @ [Eol]) prev t rec acc = (if t = js cs then Some acc else None)"
proof -
  have "rx_match False (CloseGroup # lit cs @ [Eol]) prev t rec acc =
        rx_match False (lit cs @ [Eol]) prev t False acc"
    by simp
  also have "\<dots> =
     (if prefix (js cs) t
      then rx_match False [Eol] (prev_after prev (js cs)) (drop (length cs) t) False acc else None)"
    by (simp only: rx_lit if_False)
  also have "\<dots> = (if prefix (js cs) t \<and> drop (length cs) t = [] then Some acc else None)"
    by (simp only: rx_eol) simp
  also have "\<dots> = (if t = js cs then Some acc else None)"
    using prefix_drop_all[of "js cs" t] by (simp add: js_def)
  finally show ?thesis .
qed

lemma chipFileRegex_exec:
  "rx_exec False chipFileRegex s =
     (if takeWhile isDigit s \<noteq> [] \<and> dropWhile isDigit s = js ''.v''
      then Some (takeWhile isDigit s) else None)"
proof -
  have "rx_exec False chipFileRegex s =
        rx_match False (Bol # OpenGroup # OneOrMore isDigit # CloseGroup # lit ''.v'' @ [Eol]) None s False []"
    unfolding chipFileRegex_def by (simp only: append_Cons append_Nil rx_exec_anchored)
  also have "\<dots> = rx_match False (OneOrMore isDigit # CloseGroup # lit ''.v'' @ [Eol]) None s True []"
    by simp
  also have "\<dots> =
     (if takeWhile isDigit s = [] then None
      else rx_match False (CloseGroup # lit ''.v'' @ [Eol]) (Some (last (takeWhile isDigit s)))
             (dropWhile isDigit s) True (takeWhile isDigit s))"
    by (simp only: rx_plus_greedy[of isDigit, OF rej_dot_v] if_True append_Nil)
  also have "\<dots> =
     (if takeWhile isDigit s \<noteq> [] \<and> dropWhile isDigit s = js ''.v''
      then Some (takeWhile isDigit s) else None)"
    by (simp only: rx_close_lit_eol) simp
  finally show ?thesis .
qed

lemma digits_no_dash: "list_all isDigit d \<Longrightarrow> of_char CHR ''-'' \<notin> set (d @ js ''.v'')"
  by (auto simp: list_all_iff isDigit_def js_def)

lemma no_tb_in_chip_file:
  assumes "list_all isDigit d"
  shows "\<not> str_includes (d @ js ''.v'') (js ''-tb'')" "\<not> str_includes (d @ js ''.v'') (js ''-tb.v'')"
proof -
  have "\<not> sublist (js ''-tb'') (d @ js ''.v'')"
  proof
    assume "sublist (js ''-tb'') (d @ js ''.v'')"
    then have "set (js ''-tb'') \<subseteq> set (d @ js ''.v'')" by (rule set_mono_sublist)
    then have "of_char CHR ''-'' \<in> set (d @ js ''.v'')" by (auto simp: js_def)
    with digits_no_dash[OF assms] show False by simp
  qed
  then show "\<not> str_includes (d @ js ''.v'') (js ''-tb'')" by (simp add: str_includes_def)
  have "\<not> sublist (js ''-tb.v'') (d @ js ''.v'')"
  proof
    assume "sublist (js ''-tb.v'') (d @ js ''.v'')"
    then have "set (js ''-tb.v'') \<subseteq> set (d @ js ''.v'')" by (rule set_mono_sublist)
    then have "of_char CHR ''-'' \<in> set (d @ js ''.v'')" by (auto simp: js_def)
    with digits_no_dash[OF assms] show False by simp
  qed
  then show "\<not> str_includes (d @ js ''.v'') (js ''-tb.v'')" by (simp add: str_includes_def)
qed

lemma dot_not_digit: "\<not> isDigit (of_char CHR ''.'')"
  by (simp add: isDigit_def)

lemma extractChipNumber_iff:
  "extractChipNumber fileName = Some d \<longleftrightarrow>
     d \<noteq> [] \<and> list_all isDigit d \<and> fileName = d @ js ''.v''"
proof
  assume a: "extractChipNumber fileName = Some d"
  then have "rx_exec False chipFileRegex fileName = Some d"
    by (auto simp: extractChipNumber_def split: option.splits if_splits)
  then have m: "takeWhile isDigit fileName \<noteq> []" "dropWhile isDigit fileName = js ''.v''"
      "d = takeWhile isDigit fileName"
    by (auto simp only: chipFileRegex_exec split: if_splits)
  have "fileName = takeWhile isDigit fileName @ dropWhile isDigit fileName" by simp
  with m have "fileName = d @ js ''.v''" by simp
  moreover have "list_all isDigit d" using m(3) by (auto simp: list_all_iff dest: set_takeWhileD)
  ultimately show "d \<noteq> [] \<and> list_all isDigit d \<and> fileName = d @ js ''.v''" using m by simp
next
  assume a: "d \<noteq> [] \<and> list_all isDigit d \<and> fileName = d @ js ''.v''"
  then have tk: "takeWhile isDigit fileName = d" "dropWhile isDigit fileName = js ''.v''"
    using dot_not_digit by (simp_all add: takeWhile_all dropWhile_all js_def)
  then have "rx_exec False chipFileRegex fileName = Some d"
    using a by (simp only: chipFileRegex_exec) simp
  then show "extractChipNumber fileName = Some d"
    using a no_tb_in_chip_file(1)[of d] by (simp add: extractChipNumber_def)
qed

lemma chip_file_guard:
  assumes "d \<noteq> []" "list_all isDigit d"
  shows "str_endsWith (d @ js ''.v'') (js ''.v'') \<and> \<not> str_includes (d @ js ''.v'') (js ''-tb.v'')"
  using no_tb_in_chip_file(2)[OF assms(2)] by (simp add: str_endsWith_def suffix_def)

lemma set_addChipNumbers:
  "set (addChipNumbers fileNames acc) =
     set acc \<union> {d. d \<noteq> [] \<and> list_all isDigit d \<and> d @ js ''.v'' \<in> set fileNames}"
proof (induction fileNames arbitrary: acc)
  case Nil
  show ?case by simp
next
  case (Cons f fs)
  show ?case
  proof (cases "extractChipNumber f")
    case None
    then have "\<And>d. \<not> (d \<noteq> [] \<and> list_all isDigit d \<and> f = d @ js ''.v'')"
      using extractChipNumber_iff[of f] by simp
    then have "{d. d \<noteq> [] \<and> list_all isDigit d \<and> d @ js ''.v'' \<in> set (f # fs)} =
               {d. d \<noteq> [] \<and> list_all isDigit d \<and> d @ js ''.v'' \<in> set fs}"
      by auto
    then show ?thesis using None Cons.IH by simp
  next
    case (Some c)
    then have c: "c \<noteq> []" "list_all isDigit c" "f = c @ js ''.v''"
      using extractChipNumber_iff[of f c] by simp_all
    have "{d. d \<noteq> [] \<and> list_all isDigit d \<and> d @ js ''.v'' \<in> set (f # fs)} =
          insert c {d. d \<noteq> [] \<and> list_all isDigit d \<and> d @ js ''.v'' \<in> set fs}"
      using c by auto
    moreover have "addChipNumbers (f # fs) acc = addChipNumbers fs (set_add c acc)"
      using Some c chip_file_guard[OF c(1,2)] by simp
    moreover have "set (set_add c acc) = insert c (set acc)"
      by (auto simp: set_add_def)
    ultimately show ?thesis using Cons.IH[of "set_add c acc"] by simp
  qed
qed

lemma distinct_set_add: "distinct xs \<Longrightarrow> distinct (set_add x xs)"
  by (simp add: set_add_def)

lemma distinct_addChipNumbers: "distinct acc \<Longrightarrow> distinct (addChipNumbers fileNames acc)"
  by (induction fileNames arbitrary: acc) (auto simp: distinct_set_add split: option.splits)

text \<open>
  C4. The chip numbers \<open>getAllChipNumbers\<close> returns for a directory are exactly the
  non-empty digit sequences \<open>d\<close> such that \<open>d.v\<close> is a name in the directory; each occurs
  once, and they are in ascending order (the order of strings by code units). No such name
  contains \<open>-tb\<close>. A name that is not of this form yields no chip number and adds nothing
  to the set, so \<open>main\<close>, which goes through the returned list, never attempts it.
\<close>

theorem chipNumbersOf_exact:
  "set (chipNumbersOf fileNames) =
     {d. d \<noteq> [] \<and> list_all isDigit d \<and> d @ js ''.v'' \<in> set fileNames} \<and>
   distinct (chipNumbersOf fileNames) \<and> sorted (chipNumbersOf fileNames) \<and>
   (files w sourceDir = Some (Dir fileNames) \<longrightarrow>
      fst (getAllChipNumbers sourceDir w) = Inr (chipNumbersOf fileNames)) \<and>
   ((\<forall>d. d \<noteq> [] \<and> list_all isDigit d \<longrightarrow> name \<noteq> d @ js ''.v'') \<longrightarrow>
      extractChipNumber name = None \<and> addChipNumbers (name # rest) acc = addChipNumbers rest acc)"
proof (intro conjI impI)
  show "set (chipNumbersOf fileNames) =
     {d. d \<noteq> [] \<and> list_all isDigit d \<and> d @ js ''.v'' \<in> set fileNames}"
    by (simp add: chipNumbersOf_def set_addChipNumbers)
  show "distinct (chipNumbersOf fileNames)"
    by (simp add: chipNumbersOf_def distinct_addChipNumbers)
  show "sorted (chipNumbersOf fileNames)"
    by (simp add: chipNumbersOf_def)
next
  assume "files w sourceDir = Some (Dir fileNames)"
  then show "fst (getAllChipNumbers sourceDir w) = Inr (chipNumbersOf fileNames)"
    by (simp add: getAllChipNumbers_def readdirSync_def)
next
  assume a: "\<forall>d. d \<noteq> [] \<and> list_all isDigit d \<longrightarrow> name \<noteq> d @ js ''.v''"
  show n: "extractChipNumber name = None"
  proof (cases "extractChipNumber name")
    case (Some d)
    then show ?thesis using a extractChipNumber_iff[of name d] by blast
  qed simp
  show "addChipNumbers (name # rest) acc = addChipNumbers rest acc"
    using n by simp
qed

text \<open>
  The theorem on the directory of the example project: the two chips are found, in order,
  and \<open>readme.v\<close> gives no chip.
\<close>

lemma chipNumbersOf_example:
  "chipNumbersOf [js ''74161.v'', js ''74161-tb.v'', js ''7400.v'', js ''7400-tb.v'', js ''readme.v'']
   = [js ''7400'', js ''74161'']"
  by code_simp

theorem chipNumbersOf_exact_witness:
  "set (chipNumbersOf [js ''74161.v'', js ''74161-tb.v'', js ''7400.v'', js ''7400-tb.v'', js ''readme.v'']) =
     {d. d \<noteq> [] \<and> list_all isDigit d \<and>
         d @ js ''.v'' \<in> set [js ''74161.v'', js ''74161-tb.v'', js ''7400.v'', js ''7400-tb.v'', js ''readme.v'']} \<and>
   fst (getAllChipNumbers (js ''/proj/source-7400'') example_world) = Inr [js ''7400'', js ''74161''] \<and>
   extractChipNumber (js ''readme.v'') = None"
proof -
  let ?names = "[js ''74161.v'', js ''74161-tb.v'', js ''7400.v'', js ''7400-tb.v'', js ''readme.v'']"
  have dir: "files example_world (js ''/proj/source-7400'') = Some (Dir ?names)"
    by (simp add: example_world_def example_files_def js_def)
  have readme: "\<forall>d. d \<noteq> [] \<and> list_all isDigit d \<longrightarrow> js ''readme.v'' \<noteq> d @ js ''.v''"
  proof (intro allI impI notI)
    fix d
    assume d: "d \<noteq> [] \<and> list_all isDigit d" and e: "js ''readme.v'' = d @ js ''.v''"
    have "js ''readme.v'' = js ''readme'' @ js ''.v''" by (simp add: js_def)
    with e have "d = js ''readme''" by simp
    with d show False by (simp add: js_def isDigit_def)
  qed
  from chipNumbersOf_exact[of ?names example_world "js ''/proj/source-7400''" "js ''readme.v''" "[]" "[]"]
    dir readme chipNumbersOf_example
  show ?thesis by simp
qed

section \<open>Core discovery\<close>

lemma rx_star_last:
  "rx_match ml [ZeroOrMore p, CloseGroup] prev s True acc = Some (acc @ takeWhile p s)"
  by (induction s arbitrary: prev acc) simp_all

lemma rx_plus_last:
  "rx_match ml [OneOrMore p, CloseGroup] prev s True acc =
     (if takeWhile p s = [] then None else Some (acc @ takeWhile p s))"
  by (cases s) (simp_all add: rx_star_last)

lemma core_prefix_len: "length ''icechips:ttl:'' = 13"
  by simp

lemma coreNameRegex_exec:
  "rx_exec False coreNameRegex line =
     (if prefix (js ''icechips:ttl:'') line \<and> takeWhile isNameChar (drop 13 line) \<noteq> []
      then Some (js ''icechips:ttl:'' @ takeWhile isNameChar (drop 13 line)) else None)"
proof -
  have "rx_exec False coreNameRegex line =
        rx_match False (Bol # OpenGroup # lit ''icechips:ttl:'' @ [OneOrMore isNameChar, CloseGroup])
          None line False []"
    unfolding coreNameRegex_def by (simp only: append_Cons append_Nil rx_exec_anchored)
  also have "\<dots> = rx_match False (lit ''icechips:ttl:'' @ [OneOrMore isNameChar, CloseGroup])
                     None line True []"
    by simp
  also have "\<dots> =
     (if prefix (js ''icechips:ttl:'') line
      then rx_match False [OneOrMore isNameChar, CloseGroup] (prev_after None (js ''icechips:ttl:''))
             (drop 13 line) True (js ''icechips:ttl:'')
      else None)"
    by (simp only: rx_lit core_prefix_len if_True append_Nil)
  finally show ?thesis by (simp only: rx_plus_last) simp
qed

lemma collectCores_shape: "c \<in> set (collectCores lines) \<Longrightarrow> core_shape c"
proof (induction lines)
  case Nil
  then show ?case by simp
next
  case (Cons line lines)
  have tk: "list_all isNameChar (takeWhile isNameChar (drop 13 line))"
    by (auto simp: list_all_iff dest: set_takeWhileD)
  from Cons show ?case
    by (auto simp: coreNameRegex_exec core_shape_def tk split: if_splits)
qed

lemma splitOn_no_sep: "sep \<notin> set s \<Longrightarrow> splitOn sep cur s = [cur @ s]"
  by (induction s arbitrary: cur) auto

lemma core_shape_parts:
  assumes "core_shape c"
  shows "\<exists>ident. splitOn (of_char CHR '':'') [] c = [js ''icechips'', js ''ttl'', ident]"
proof -
  from assms obtain ident where c: "c = js ''icechips:ttl:'' @ ident" and i: "list_all isNameChar ident"
    by (auto simp: core_shape_def)
  have "of_char CHR '':'' \<notin> set ident" using i by (auto simp: list_all_iff isNameChar_def)
  then have "splitOn (of_char CHR '':'') [] ident = [ident]"
    using splitOn_no_sep[of _ ident "[]"] by simp
  then have "splitOn (of_char CHR '':'') [] c = [js ''icechips'', js ''ttl'', ident]"
    unfolding c by (simp add: js_def)
  then show ?thesis by blast
qed

lemma truncated_line:
  assumes "ident \<noteq> []" "list_all isNameChar ident"
  shows "rx_exec False coreNameRegex (js ''icechips:ttl:'' @ ident @ js '':'' @ rest) =
         Some (js ''icechips:ttl:'' @ ident)"
proof -
  have colon: "\<not> isNameChar (of_char CHR '':'')" by (simp add: isNameChar_def)
  have "length (js ''icechips:ttl:'') = 13" by (simp add: js_def)
  then have d: "drop 13 (js ''icechips:ttl:'' @ ident @ js '':'' @ rest) = ident @ js '':'' @ rest"
    by simp
  have t: "takeWhile isNameChar (ident @ js '':'' @ rest) = ident"
    using assms(2) colon by (simp add: takeWhile_all js_def)
  show ?thesis
    unfolding coreNameRegex_exec d t using assms(1) by simp
qed

section \<open>The world under the operations\<close>

lemma isFuseSoCAvailable_eq:
  "isFuseSoCAvailable w = (\<not> isl (shell w (js ''which fusesoc'')), log_event (ExecSync (js ''which fusesoc'')) w)"
  by (cases "shell w (js ''which fusesoc'')")
     (simp_all add: isFuseSoCAvailable_def execSync_ignore_def uncaptured_def split: js_error.splits)

lemma console_errors_world [simp]:
  "trace (console_errors ls w) = trace w" "files (console_errors ls w) = files w"
  "shell (console_errors ls w) = shell w"
  unfolding console_errors_def
  by (induction ls arbitrary: w) (simp_all add: console_error_def)

lemma console_logs_world [simp]:
  "trace (console_logs ls w) = trace w" "files (console_logs ls w) = files w"
  "shell (console_logs ls w) = shell w"
  unfolding console_logs_def
  by (induction ls arbitrary: w) (simp_all add: console_log_def)

lemma console_one_world [simp]:
  "trace (console_log s w) = trace w" "files (console_log s w) = files w" "shell (console_log s w) = shell w"
  "trace (console_error s w) = trace w" "files (console_error s w) = files w" "shell (console_error s w) = shell w"
  "trace (stdout_write s w) = trace w" "files (stdout_write s w) = files w" "shell (stdout_write s w) = shell w"
  by (simp_all add: console_log_def console_error_def stdout_write_def)

lemma log_event_world [simp]:
  "trace (log_event e w) = trace w @ [e]" "files (log_event e w) = files w"
  "shell (log_event e w) = shell w" "console (log_event e w) = console w"
  by (simp_all add: log_event_def)

lemma runFuseSoCSim_world:
  "trace (snd (runFuseSoCSim coreName verbose w)) = trace w @ [ExecSync (sim_command coreName)]"
  "shell (snd (runFuseSoCSim coreName verbose w)) = shell w"
  "files (snd (runFuseSoCSim coreName verbose w)) = files w"
  "sim_success (fst (runFuseSoCSim coreName verbose w)) = (\<not> isl (shell w (sim_command coreName)))"
  by (cases verbose; cases "shell w (sim_command coreName)";
      simp add: runFuseSoCSim_def execSync_pipe_def execSync_inherit_def uncaptured_def Let_def split: js_error.splits)+

lemma test_core_main_unavailable:
  "isl (shell w (js ''which fusesoc'')) \<Longrightarrow>
   test_core_main rt projectRoot (input # others) w =
     (1, console_errors fusesoc_missing (log_event (ExecSync (js ''which fusesoc'')) w))"
  by (simp add: test_core_main_def isFuseSoCAvailable_eq)

lemma test_core_main_parse_error:
  "\<not> isl (shell w (js ''which fusesoc'')) \<Longrightarrow>
   parseCoreName rt input projectRoot (log_event (ExecSync (js ''which fusesoc'')) w) = (Inl e, w2) \<Longrightarrow>
   test_core_main rt projectRoot (input # others) w =
     (1, console_error (js ''Error: '' @ err_message e) w2)"
  by (simp add: test_core_main_def isFuseSoCAvailable_eq Let_def)

lemma test_core_main_parsed:
  assumes "\<not> isl (shell w (js ''which fusesoc''))"
    and "parseCoreName rt input projectRoot (log_event (ExecSync (js ''which fusesoc'')) w) = (Inr coreName, w2)"
  shows "trace (snd (test_core_main rt projectRoot (input # others) w)) =
         trace w2 @ [ExecSync (sim_command coreName)]"
proof -
  let ?v = "verbose_option (input # others)"
  let ?w3 = "if ?v then console_logs [js ''Core name: '' @ coreName, []] w2 else w2"
  obtain result w4 where r: "runFuseSoCSim coreName ?v ?w3 = (result, w4)"
    by (cases "runFuseSoCSim coreName ?v ?w3")
  have t4: "trace w4 = trace w2 @ [ExecSync (sim_command coreName)]"
    using runFuseSoCSim_world(1)[of coreName ?v ?w3] r by simp
  have "trace (snd (test_core_main rt projectRoot (input # others) w)) = trace w4"
    using assms
    by (cases "sim_output result")
       (simp_all add: test_core_main_def isFuseSoCAvailable_eq Let_def r)
  with t4 show ?thesis by simp
qed

lemma getVersion_world:
  "snd (getVersionFromPackageJson rt projectRoot w) =
     log_event (ReadFileSync (path_join rt projectRoot (js ''package.json''))) w"
  by (simp add: getVersionFromPackageJson_def readFileSync_def Let_def
      split: prod.splits sum.splits option.splits)

section \<open>Reading the version\<close>

text \<open>
  C5, as amended. For a project root whose \<open>package.json\<close> is a readable file holding a
  JSON object, \<open>getVersionFromPackageJson\<close> returns the \<open>version\<close> property unchanged
  when it is present and truthy (any string but the empty one, any number but zero,
  \<open>true\<close>, an array, an object); it returns the string \<open>0.1.0\<close> when the property is
  present and falsy (the empty string, zero, \<open>false\<close>, \<open>null\<close>) and when it is absent.
\<close>

theorem getVersionFromPackageJson_truthy_or_default:
  "files w (path_join rt projectRoot (js ''package.json'')) = Some (File text) \<and>
   JSON_parse rt text = Inr (JObj props)
   \<longrightarrow>
   (\<forall>v. map_of props (js ''version'') = Some v \<and> truthy v \<longrightarrow>
        fst (getVersionFromPackageJson rt projectRoot w) = Inr v) \<and>
   (\<forall>v. map_of props (js ''version'') = Some v \<and> \<not> truthy v \<longrightarrow>
        fst (getVersionFromPackageJson rt projectRoot w) = Inr (JStr (js ''0.1.0''))) \<and>
   (map_of props (js ''version'') = None \<longrightarrow>
        fst (getVersionFromPackageJson rt projectRoot w) = Inr (JStr (js ''0.1.0'')))"
  by (simp add: getVersionFromPackageJson_def readFileSync_def version_property_def Let_def)

text \<open>The three manifests of the example.\<close>

lemma example_manifest_proj:
  \<open>files example_world (path_join example_runtime (js ''/proj'') (js ''package.json'')) =
     Some (File (js ''{"version": "0.9.2"}'')) \<and>
   JSON_parse example_runtime (js ''{"version": "0.9.2"}'') = Inr (JObj [(js ''version'', JStr (js ''0.9.2''))])\<close>
  by (simp add: example_world_def example_files_def example_runtime_def js_def)

lemma example_manifest_bare:
  \<open>files example_world (path_join example_runtime (js ''/bare'') (js ''package.json'')) =
     Some (File (js ''{}'')) \<and>
   JSON_parse example_runtime (js ''{}'') = Inr (JObj [])\<close>
  by (simp add: example_world_def example_files_def example_runtime_def js_def)

lemma example_manifest_blank:
  \<open>files example_world (path_join example_runtime (js ''/blank'') (js ''package.json'')) =
     Some (File (js ''{"version": ""}'')) \<and>
   JSON_parse example_runtime (js ''{"version": ""}'') = Inr (JObj [(js ''version'', JStr [])])\<close>
  by (simp add: example_world_def example_files_def example_runtime_def js_def)

text \<open>The theorem on \<open>/proj\<close> (version 0.9.2) and on \<open>/bare\<close> (no version).\<close>

theorem getVersionFromPackageJson_truthy_or_default_witness:
  "fst (getVersionFromPackageJson example_runtime (js ''/proj'') example_world) = Inr (JStr (js ''0.9.2'')) \<and>
   fst (getVersionFromPackageJson example_runtime (js ''/bare'') example_world) = Inr (JStr (js ''0.1.0''))"
proof -
  have v: "js ''0.9.2'' \<noteq> []" by (simp add: js_def)
  have "fst (getVersionFromPackageJson example_runtime (js ''/proj'') example_world) = Inr (JStr (js ''0.9.2''))"
    using getVersionFromPackageJson_truthy_or_default[of example_world example_runtime "js ''/proj''"
        \<open>js ''{"version": "0.9.2"}''\<close> "[(js ''version'', JStr (js ''0.9.2''))]"] example_manifest_proj v
    by simp
  moreover
  have "fst (getVersionFromPackageJson example_runtime (js ''/bare'') example_world) = Inr (JStr (js ''0.1.0''))"
    using getVersionFromPackageJson_truthy_or_default[of example_world example_runtime "js ''/bare''"
        "js ''{}''" "[]"] example_manifest_bare
    by simp
  ultimately show ?thesis by simp
qed

text \<open>
  The claim as stated fails: the manifest of \<open>/blank\<close> has the property \<open>version\<close>, the
  empty string, and \<open>0.1.0\<close> is returned in its place.
\<close>

theorem getVersionFromPackageJson_empty_version_counterexample:
  \<open>files example_world (path_join example_runtime (js ''/blank'') (js ''package.json'')) =
     Some (File (js ''{"version": ""}'')) \<and>
   JSON_parse example_runtime (js ''{"version": ""}'') = Inr (JObj [(js ''version'', JStr [])]) \<and>
   fst (getVersionFromPackageJson example_runtime (js ''/blank'') example_world) = Inr (JStr (js ''0.1.0'')) \<and>
   fst (getVersionFromPackageJson example_runtime (js ''/blank'') example_world) \<noteq> Inr (JStr [])\<close>
  using example_manifest_blank
  by (simp add: getVersionFromPackageJson_def readFileSync_def version_property_def Let_def) (simp add: js_def)

section \<open>Resolving the core name in test-core.js\<close>

lemma parseCoreName_missing:
  assumes "\<not> str_includes input (js '':'')"
    and "files w (path_join rt projectRoot (js ''icechips_'' @ input @ js ''.core'')) = None"
  shows "parseCoreName rt input projectRoot w =
     (Inl (Error (js ''Core file not found for chip '' @ input @ js ''. '' @
                  js ''Expected: icechips_'' @ input @ js ''.core'')),
      log_event (ExistsSync (path_join rt projectRoot (js ''icechips_'' @ input @ js ''.core''))) w)"
  using assms by (simp add: parseCoreName_def coreFileExists_def existsSync_def Let_def)

text \<open>
  C7. For an input without a colon whose core file \<open>icechips_<input>.core\<close> does not
  exist in the project root, \<open>parseCoreName\<close> throws the error \<open>Core file not found for
  chip <input>. Expected: icechips_<input>.core\<close>; \<open>main\<close> exits with status 1 and runs
  no command but the probe \<open>which fusesoc\<close>, so no simulation is started; when the probe
  succeeds, \<open>main\<close> prints that error.
\<close>

theorem parseCoreName_core_file_not_found:
  "\<not> str_includes input (js '':'') \<and>
   files w (path_join rt projectRoot (js ''icechips_'' @ input @ js ''.core'')) = None
   \<longrightarrow>
   fst (parseCoreName rt input projectRoot w) =
     Inl (Error (js ''Core file not found for chip '' @ input @ js ''. Expected: icechips_'' @ input @ js ''.core'')) \<and>
   fst (test_core_main rt projectRoot (input # others) w) = 1 \<and>
   (\<forall>cmd. ExecSync cmd \<in> set (trace (snd (test_core_main rt projectRoot (input # others) w)))
      \<longrightarrow> ExecSync cmd \<in> set (trace w) \<or> cmd = js ''which fusesoc'') \<and>
   (fst (isFuseSoCAvailable w) \<longrightarrow>
      console (snd (test_core_main rt projectRoot (input # others) w)) =
        console w @ [Stderr (js ''Error: Core file not found for chip '' @ input @
                             js ''. Expected: icechips_'' @ input @ js ''.core'' @ js ''\<newline>'')])"
proof (intro impI)
  assume a: "\<not> str_includes input (js '':'') \<and>
   files w (path_join rt projectRoot (js ''icechips_'' @ input @ js ''.core'')) = None"
  let ?msg = "js ''Core file not found for chip '' @ input @ js ''. Expected: icechips_'' @ input @ js ''.core''"
  let ?w1 = "log_event (ExecSync (js ''which fusesoc'')) w"
  let ?main = "test_core_main rt projectRoot (input # others) w"
  have j: "js ''. '' @ js ''Expected: icechips_'' @ input @ js ''.core'' =
           js ''. Expected: icechips_'' @ input @ js ''.core''"
    by (simp add: js_def)
  have p0: "fst (parseCoreName rt input projectRoot w) = Inl (Error ?msg)"
    using a parseCoreName_missing[of input w rt projectRoot] j by simp
  have p1: "parseCoreName rt input projectRoot ?w1 =
     (Inl (Error ?msg),
      log_event (ExistsSync (path_join rt projectRoot (js ''icechips_'' @ input @ js ''.core''))) ?w1)"
    using a parseCoreName_missing[of input ?w1 rt projectRoot] j by simp
  have m: "fst ?main = 1 \<and>
    (\<forall>cmd. ExecSync cmd \<in> set (trace (snd ?main)) \<longrightarrow> ExecSync cmd \<in> set (trace w) \<or> cmd = js ''which fusesoc'')"
  proof (cases "isl (shell w (js ''which fusesoc''))")
    case True
    show ?thesis
      unfolding test_core_main_unavailable[OF True]
      by auto
  next
    case False
    show ?thesis
      unfolding test_core_main_parse_error[OF False p1]
      by (auto simp: console_error_def)
  qed
  have c: "fst (isFuseSoCAvailable w) \<longrightarrow>
       console (snd ?main) = console w @ [Stderr (js ''Error: '' @ ?msg @ js ''\<newline>'')]"
  proof (cases "isl (shell w (js ''which fusesoc''))")
    case True
    then show ?thesis by (simp add: isFuseSoCAvailable_eq)
  next
    case False
    show ?thesis
      unfolding test_core_main_parse_error[OF False p1]
      by (simp add: console_error_def)
  qed
  show "fst (parseCoreName rt input projectRoot w) =
     Inl (Error (js ''Core file not found for chip '' @ input @ js ''. Expected: icechips_'' @ input @ js ''.core'')) \<and>
   fst (test_core_main rt projectRoot (input # others) w) = 1 \<and>
   (\<forall>cmd. ExecSync cmd \<in> set (trace (snd (test_core_main rt projectRoot (input # others) w)))
      \<longrightarrow> ExecSync cmd \<in> set (trace w) \<or> cmd = js ''which fusesoc'') \<and>
   (fst (isFuseSoCAvailable w) \<longrightarrow>
      console (snd (test_core_main rt projectRoot (input # others) w)) =
        console w @ [Stderr (js ''Error: Core file not found for chip '' @ input @
                             js ''. Expected: icechips_'' @ input @ js ''.core'' @ js ''\<newline>'')])"
    using p0 m c by (simp add: js_def)
qed

text \<open>The theorem on chip 12345 of \<open>/proj\<close>, which has no core file.\<close>

theorem parseCoreName_core_file_not_found_witness:
  "fst (parseCoreName example_runtime (js ''12345'') (js ''/proj'') example_world) =
     Inl (Error (js ''Core file not found for chip 12345. Expected: icechips_12345.core'')) \<and>
   fst (test_core_main example_runtime (js ''/proj'') [js ''12345''] example_world) = 1 \<and>
   console (snd (test_core_main example_runtime (js ''/proj'') [js ''12345''] example_world)) =
     [Stderr (js ''Error: Core file not found for chip 12345. Expected: icechips_12345.core\<newline>'')]"
proof -
  have h: "\<not> str_includes (js ''12345'') (js '':'')"
    "files example_world (path_join example_runtime (js ''/proj'') (js ''icechips_'' @ js ''12345'' @ js ''.core'')) = None"
    "fst (isFuseSoCAvailable example_world)" "console example_world = []"
    by code_simp+
  have e: "js ''Core file not found for chip '' @ js ''12345'' @ js ''. Expected: icechips_'' @ js ''12345'' @ js ''.core''
           = js ''Core file not found for chip 12345. Expected: icechips_12345.core''"
    "js ''Error: Core file not found for chip '' @ js ''12345'' @
       js ''. Expected: icechips_'' @ js ''12345'' @ js ''.core'' @ js ''\<newline>''
     = js ''Error: Core file not found for chip 12345. Expected: icechips_12345.core\<newline>''"
    by (simp_all add: js_def)
  from parseCoreName_core_file_not_found[of "js ''12345''" example_world example_runtime "js ''/proj''" "[]"] h
  show ?thesis unfolding e by simp
qed

text \<open>
  C8. For an input that contains a colon, \<open>parseCoreName\<close> returns the input unchanged
  and leaves the world as it was: nothing is added to the trace, so the file system is not
  consulted. When \<open>fusesoc\<close> is available, \<open>main\<close> runs the probe and then the
  simulation of exactly that string, and nothing else.
\<close>

theorem parseCoreName_qualified_unchanged:
  "str_includes input (js '':'') \<longrightarrow>
   parseCoreName rt input projectRoot w = (Inr input, w) \<and>
   (fst (isFuseSoCAvailable w) \<longrightarrow>
      trace (snd (test_core_main rt projectRoot (input # others) w)) =
        trace w @ [ExecSync (js ''which fusesoc''), ExecSync (js ''fusesoc run --target=sim '' @ input)])"
proof (intro impI conjI)
  assume a: "str_includes input (js '':'')"
  then show p: "parseCoreName rt input projectRoot w = (Inr input, w)"
    by (simp add: parseCoreName_def)
  assume b: "fst (isFuseSoCAvailable w)"
  then have av: "\<not> isl (shell w (js ''which fusesoc''))" by (simp add: isFuseSoCAvailable_eq)
  have p1: "parseCoreName rt input projectRoot (log_event (ExecSync (js ''which fusesoc'')) w) =
            (Inr input, log_event (ExecSync (js ''which fusesoc'')) w)"
    using a by (simp add: parseCoreName_def)
  show "trace (snd (test_core_main rt projectRoot (input # others) w)) =
        trace w @ [ExecSync (js ''which fusesoc''), ExecSync (js ''fusesoc run --target=sim '' @ input)]"
    unfolding test_core_main_parsed[OF av p1] by (simp add: sim_command_def)
qed

text \<open>The theorem on a fully qualified core name.\<close>

theorem parseCoreName_qualified_unchanged_witness:
  "parseCoreName example_runtime (js ''icechips:ttl:74161:0.9.2'') (js ''/proj'') example_world =
     (Inr (js ''icechips:ttl:74161:0.9.2''), example_world) \<and>
   trace (snd (test_core_main example_runtime (js ''/proj'') [js ''icechips:ttl:74161:0.9.2''] example_world)) =
     [ExecSync (js ''which fusesoc''), ExecSync (js ''fusesoc run --target=sim icechips:ttl:74161:0.9.2'')]"
proof -
  have h: "str_includes (js ''icechips:ttl:74161:0.9.2'') (js '':'')"
    "fst (isFuseSoCAvailable example_world)" "trace example_world = []"
    by code_simp+
  have e: "js ''fusesoc run --target=sim '' @ js ''icechips:ttl:74161:0.9.2'' =
           js ''fusesoc run --target=sim icechips:ttl:74161:0.9.2''"
    by (simp add: js_def)
  from parseCoreName_qualified_unchanged[of "js ''icechips:ttl:74161:0.9.2''" example_runtime "js ''/proj''"
      example_world "[]"] h
  show ?thesis unfolding e by simp
qed

section \<open>generateCoreForChip and its failures\<close>

lemma failure_not_success: "\<not> success (failure_result m)"
  by (simp add: failure_result_def)

lemma finalVersion_world:
  "snd (finalVersion rt projectRoot version w) = w \<or>
   snd (finalVersion rt projectRoot version w) =
     log_event (ReadFileSync (path_join rt projectRoot (js ''package.json''))) w"
  by (cases version) (simp_all add: finalVersion_def getVersion_world)

lemma finalVersion_keeps:
  "files (snd (finalVersion rt projectRoot version w)) = files w"
  "write_error (snd (finalVersion rt projectRoot version w)) = write_error w"
  "WriteFileSync p text \<in> set (trace (snd (finalVersion rt projectRoot version w)))
     \<Longrightarrow> WriteFileSync p text \<in> set (trace w)"
  using finalVersion_world[of rt projectRoot version w] by (auto simp: log_event_def)

lemma isExistingFile_eq:
  "files w1 = files w \<Longrightarrow>
   isExistingFile rt base name w1 =
     (fst (isExistingFile rt base name w), log_event (IsExistingFile (path_join rt base name)) w1)"
  by (simp add: isExistingFile_def Let_def)

lemma readFile_eq:
  "files w1 = files w \<Longrightarrow>
   readFile rt base name w1 =
     (fst (readFile rt base name w), log_event (ReadFileSync (path_join rt base name)) w1)"
  by (simp add: readFile_def readFileSync_def)

lemma decl_at_nonempty: "decl_at s = Some name \<Longrightarrow> name \<noteq> []"
  unfolding decl_at_def Let_def by (auto split: if_splits)

lemma extractModuleName_nonempty: "extractModuleName s = Some name \<Longrightarrow> name \<noteq> []"
proof -
  assume "extractModuleName s = Some name"
  then have "rx_search True moduleRegex None s = Some name"
    by (simp add: extractModuleName_def rx_exec_def)
  from rx_search_SomeD[OF this] obtain pv t where "rx_match True moduleRegex pv t False [] = Some name"
    by blast
  then have "decl_at t = Some name" by (simp add: moduleRegex_match split: if_splits)
  then show ?thesis by (rule decl_at_nonempty)
qed

text \<open>The body of the \<open>try\<close> block, stage by stage, on the world the function is called in.\<close>

lemma finalVersion_cases:
  obtains w1 where "finalVersion rt projectRoot version w = (fst (finalVersion rt projectRoot version w), w1)"
    and "files w1 = files w" and "write_error w1 = write_error w"
    and "w1 = snd (finalVersion rt projectRoot version w)"
proof -
  obtain r w1 where f: "finalVersion rt projectRoot version w = (r, w1)"
    by (cases "finalVersion rt projectRoot version w")
  then have "w1 = snd (finalVersion rt projectRoot version w)" "r = fst (finalVersion rt projectRoot version w)"
    by simp_all
  with f finalVersion_keeps(1,2)[of rt projectRoot version w] that[of w1] show thesis by metis
qed

lemma try_version_fails:
  assumes "fst (finalVersion rt projectRoot version w) = Inl e"
  shows "generateCoreForChip_try rt chipNumber projectRoot version w =
     (Inl e, snd (finalVersion rt projectRoot version w))"
proof -
  obtain w1 where f: "finalVersion rt projectRoot version w = (fst (finalVersion rt projectRoot version w), w1)"
    and w1: "w1 = snd (finalVersion rt projectRoot version w)"
    by (rule finalVersion_cases)
  have f': "finalVersion rt projectRoot version w = (Inl e, w1)" using f assms by simp
  show ?thesis
    unfolding generateCoreForChip_try_def Let_def w1[symmetric]
    by (simp add: f')
qed

lemma try_rtl_missing:
  assumes fv: "fst (finalVersion rt projectRoot version w) = Inr ver"
    and "\<not> fst (isExistingFile rt (path_join rt projectRoot (js ''source-7400'')) (chipNumber @ js ''.v'') w)"
  shows "generateCoreForChip_try rt chipNumber projectRoot version w =
     (Inr (failure_result (js ''RTL file not found: '' @
        path_join rt (path_join rt projectRoot (js ''source-7400'')) (chipNumber @ js ''.v''))),
      log_event (IsExistingFile (path_join rt (path_join rt projectRoot (js ''source-7400'')) (chipNumber @ js ''.v'')))
        (snd (finalVersion rt projectRoot version w)))"
proof -
  obtain w1 where f: "finalVersion rt projectRoot version w = (fst (finalVersion rt projectRoot version w), w1)"
    and k: "files w1 = files w"
    and w1: "w1 = snd (finalVersion rt projectRoot version w)"
    by (rule finalVersion_cases)
  have f': "finalVersion rt projectRoot version w = (Inr ver, w1)" using f fv by simp
  show ?thesis
    unfolding generateCoreForChip_try_def Let_def w1[symmetric]
    using assms(2) by (simp add: f' isExistingFile_eq[OF k])
qed

lemma writeFileSync_eq:
  assumes "files w1 = files w" and "write_error w1 = write_error w"
  shows "writeFileSync p text w1 =
     (case fst (writeFileSync p text w) of
        Inl e \<Rightarrow> (Inl e, log_event (WriteFileSync p text) w1)
      | Inr u \<Rightarrow> (Inr (), log_event (WriteFileSync p text) (w1\<lparr>files := (files w)(p \<mapsto> File text)\<rparr>)))"
  using assms by (simp add: writeFileSync_def split: option.splits entry.splits)

lemma try_flat:
  assumes fv: "fst (finalVersion rt projectRoot version w) = Inr ver"
  shows "generateCoreForChip_try rt chipNumber projectRoot version w =
    (let sourceDir = path_join rt projectRoot (js ''source-7400'');
         rtlFileName = chipNumber @ js ''.v'';
         tbFileName = chipNumber @ js ''-tb.v'';
         w1 = snd (finalVersion rt projectRoot version w);
         w2 = log_event (IsExistingFile (path_join rt sourceDir rtlFileName)) w1;
         w3 = log_event (IsExistingFile (path_join rt sourceDir tbFileName)) w2;
         w4 = log_event (ReadFileSync (path_join rt sourceDir rtlFileName)) w3;
         w5 = log_event (ReadFileSync (path_join rt sourceDir tbFileName)) w4
     in if \<not> fst (isExistingFile rt sourceDir rtlFileName w)
        then (Inr (failure_result (js ''RTL file not found: '' @ path_join rt sourceDir rtlFileName)), w2)
        else if \<not> fst (isExistingFile rt sourceDir tbFileName w)
        then (Inr (failure_result (js ''Testbench file not found: '' @ path_join rt sourceDir tbFileName)), w3)
        else
      (case fst (readFile rt sourceDir rtlFileName w) of
         Inl e \<Rightarrow> (Inl e, w4)
       | Inr rtlContent \<Rightarrow>
      (case fst (readFile rt sourceDir tbFileName w) of
         Inl e \<Rightarrow> (Inl e, w5)
       | Inr tbContent \<Rightarrow>
      (case extractModuleName rtlContent of
         None \<Rightarrow> (Inr (failure_result (js ''Could not extract module name from '' @ rtlFileName)), w5)
       | Some rtlModuleName \<Rightarrow>
      (case extractModuleName tbContent of
         None \<Rightarrow> (Inr (failure_result (js ''Could not extract module name from '' @ tbFileName)), w5)
       | Some tbModuleName \<Rightarrow>
      (case toStr rt ver of
         Inl e \<Rightarrow> (Inl e, w5)
       | Inr versionText \<Rightarrow>
      (let coreContent = generateCoreFile chipNumber versionText rtlModuleName tbModuleName;
           coreFilePath = path_join rt projectRoot (js ''icechips_'' @ chipNumber @ js ''.core'')
       in case fst (writeFileSync coreFilePath coreContent w) of
            Inl e \<Rightarrow> (Inl e, log_event (WriteFileSync coreFilePath coreContent) w5)
          | Inr u \<Rightarrow>
              (Inr \<lparr>success = True, message = js ''Generated core file: '' @ coreFilePath,
                    chip = Some chipNumber, rtl_module = Some rtlModuleName,
                    tb_module = Some tbModuleName\<rparr>,
               log_event (WriteFileSync coreFilePath coreContent)
                 (w5\<lparr>files := (files w)(coreFilePath \<mapsto> File coreContent)\<rparr>)))))))))"
proof -
  define sourceDir where "sourceDir = path_join rt projectRoot (js ''source-7400'')"
  define rtlFileName where "rtlFileName = chipNumber @ js ''.v''"
  define tbFileName where "tbFileName = chipNumber @ js ''-tb.v''"
  obtain w1 where f: "finalVersion rt projectRoot version w = (fst (finalVersion rt projectRoot version w), w1)"
    and k1: "files w1 = files w" and e1: "write_error w1 = write_error w"
    and w1: "w1 = snd (finalVersion rt projectRoot version w)"
    by (rule finalVersion_cases)
  have f': "finalVersion rt projectRoot version w = (Inr ver, w1)" using f fv by simp
  define w2 where "w2 = log_event (IsExistingFile (path_join rt sourceDir rtlFileName)) w1"
  define w3 where "w3 = log_event (IsExistingFile (path_join rt sourceDir tbFileName)) w2"
  define w4 where "w4 = log_event (ReadFileSync (path_join rt sourceDir rtlFileName)) w3"
  define w5 where "w5 = log_event (ReadFileSync (path_join rt sourceDir tbFileName)) w4"
  have k: "files w2 = files w" "files w3 = files w" "files w4 = files w" "files w5 = files w"
    and e: "write_error w5 = write_error w"
    by (simp_all add: w2_def w3_def w4_def w5_def k1 e1 log_event_def)
  have s1: "isExistingFile rt sourceDir rtlFileName w1 = (fst (isExistingFile rt sourceDir rtlFileName w), w2)"
    unfolding w2_def by (rule isExistingFile_eq[OF k1])
  have s2: "isExistingFile rt sourceDir tbFileName w2 = (fst (isExistingFile rt sourceDir tbFileName w), w3)"
    unfolding w3_def by (rule isExistingFile_eq[OF k(1)])
  have s3: "readFile rt sourceDir rtlFileName w3 = (fst (readFile rt sourceDir rtlFileName w), w4)"
    unfolding w4_def by (rule readFile_eq[OF k(2)])
  have s4: "readFile rt sourceDir tbFileName w4 = (fst (readFile rt sourceDir tbFileName w), w5)"
    unfolding w5_def by (rule readFile_eq[OF k(3)])
  note s5 = writeFileSync_eq[OF k(4) e]
  show ?thesis
    unfolding generateCoreForChip_try_def Let_def w1[symmetric]
      sourceDir_def[symmetric] rtlFileName_def[symmetric] tbFileName_def[symmetric]
      w2_def[symmetric] w3_def[symmetric] w4_def[symmetric] w5_def[symmetric]
    by (simp add: f' s1 s2 s3 s4 s5 extractModuleName_nonempty split: sum.split option.split)
qed

text \<open>
  C1, as amended. For every chip number, project root, version and world,
  \<open>generateCoreForChip\<close> returns a result and throws nothing, and the result of every
  failure has \<open>success\<close> false. A failure of the version lookup (\<open>package.json\<close> cannot
  be read or parsed) is caught like every other exception and gives the message
  \<open>Error processing <chip>: <message of the error>\<close>. After a successful lookup: a
  missing RTL file gives \<open>RTL file not found:\<close> and its path; a missing testbench gives
  \<open>Testbench file not found:\<close> and its path; an error while reading either file, while
  converting the version to a string, or while writing the core file is caught and gives
  \<open>Error processing <chip>: <message of the error>\<close>; a source without a module
  declaration gives \<open>Could not extract module name from\<close> and the name of the file; and
  otherwise the result has \<open>success\<close> true and the core file holds the generated
  manifest.
\<close>

theorem generateCoreForChip_never_throws:
  "let G = generateCoreForChip rt chipNumber projectRoot version w;
       sourceDir = path_join rt projectRoot (js ''source-7400'');
       rtlFileName = chipNumber @ js ''.v'';
       tbFileName = chipNumber @ js ''-tb.v'';
       coreFilePath = path_join rt projectRoot (js ''icechips_'' @ chipNumber @ js ''.core'');
       caught = (\<lambda>e. Inr (failure_result (js ''Error processing '' @ chipNumber @ js '': '' @ err_message e)))
   in (\<exists>result. fst G = Inr result) \<and>
      (\<forall>m. \<not> success (failure_result m)) \<and>
      (\<forall>e. fst (finalVersion rt projectRoot version w) = Inl e \<longrightarrow> fst G = caught e) \<and>
      (\<forall>ver. fst (finalVersion rt projectRoot version w) = Inr ver \<longrightarrow>
         (\<not> fst (isExistingFile rt sourceDir rtlFileName w) \<longrightarrow>
            fst G = Inr (failure_result (js ''RTL file not found: '' @ path_join rt sourceDir rtlFileName))) \<and>
         (fst (isExistingFile rt sourceDir rtlFileName w) \<and> \<not> fst (isExistingFile rt sourceDir tbFileName w) \<longrightarrow>
            fst G = Inr (failure_result (js ''Testbench file not found: '' @ path_join rt sourceDir tbFileName))) \<and>
         (fst (isExistingFile rt sourceDir rtlFileName w) \<and> fst (isExistingFile rt sourceDir tbFileName w) \<longrightarrow>
            (\<forall>e. fst (readFile rt sourceDir rtlFileName w) = Inl e \<longrightarrow> fst G = caught e) \<and>
            (\<forall>rtlContent. fst (readFile rt sourceDir rtlFileName w) = Inr rtlContent \<longrightarrow>
               (\<forall>e. fst (readFile rt sourceDir tbFileName w) = Inl e \<longrightarrow> fst G = caught e) \<and>
               (\<forall>tbContent. fst (readFile rt sourceDir tbFileName w) = Inr tbContent \<longrightarrow>
                  (extractModuleName rtlContent = None \<longrightarrow>
                     fst G = Inr (failure_result (js ''Could not extract module name from '' @ rtlFileName))) \<and>
                  (\<forall>rtlModuleName. extractModuleName rtlContent = Some rtlModuleName \<longrightarrow>
                     (extractModuleName tbContent = None \<longrightarrow>
                        fst G = Inr (failure_result (js ''Could not extract module name from '' @ tbFileName))) \<and>
                     (\<forall>tbModuleName. extractModuleName tbContent = Some tbModuleName \<longrightarrow>
                        (\<forall>e. toStr rt ver = Inl e \<longrightarrow> fst G = caught e) \<and>
                        (\<forall>versionText. toStr rt ver = Inr versionText \<longrightarrow>
                           (\<forall>e. fst (writeFileSync coreFilePath
                                   (generateCoreFile chipNumber versionText rtlModuleName tbModuleName) w) = Inl e \<longrightarrow>
                              fst G = caught e) \<and>
                           (fst (writeFileSync coreFilePath
                                   (generateCoreFile chipNumber versionText rtlModuleName tbModuleName) w) = Inr () \<longrightarrow>
                              fst G = Inr \<lparr>success = True, message = js ''Generated core file: '' @ coreFilePath,
                                           chip = Some chipNumber, rtl_module = Some rtlModuleName,
                                           tb_module = Some tbModuleName\<rparr> \<and>
                              files (snd G) =
                                (files w)(coreFilePath \<mapsto>
                                   File (generateCoreFile chipNumber versionText rtlModuleName tbModuleName))))))))))"
proof (cases "fst (finalVersion rt projectRoot version w)")
  case (Inl e)
  show ?thesis
    unfolding Let_def generateCoreForChip_def try_version_fails[OF Inl]
    by (simp add: Inl failure_not_success)
next
  case (Inr ver)
  show ?thesis
    unfolding generateCoreForChip_def try_flat[OF Inr] Let_def
    apply (intro conjI allI impI)
    apply (simp_all add: Inr failure_not_success split: sum.split option.split)
    done
qed

lemma example_declarations:
  "extractModuleName (js ''module test;\<newline>'') = Some (js ''test'')"
  "extractModuleName (js ''module test;\<newline>endmodule\<newline>'') = Some (js ''test'')"
  "extractModuleName (js ''module ttl_7404(input A);\<newline>'') = Some (js ''ttl_7404'')"
  "extractModuleName (js ''// 4-bit counter\<newline>module ttl_74161 #(parameter WIDTH = 4)\<newline>(input Clk);\<newline>endmodule\<newline>'') = Some (js ''ttl_74161'')"
  "extractModuleName (js ''// no declaration\<newline>'') = None"
  by code_simp+

lemma example_versions:
  "fst (finalVersion example_runtime (js ''/void'') None example_world) =
     Inl (SystemError ENOENT (js ''open'') (Some (js ''/void/package.json'')))"
  "fst (finalVersion example_runtime (js ''/bare'') None example_world) = Inr (JStr (js ''0.1.0''))"
  "fst (finalVersion example_runtime (js ''/proj'') None example_world) = Inr (JStr (js ''0.9.2''))"
  "fst (finalVersion example_runtime (js ''/knot'') None example_world) =
     Inl (SystemError EISDIR (js ''read'') None)"
  "fst (finalVersion example_runtime (js ''/odd'') None example_world) =
     Inr (JObj [(js ''toString'', JStr (js ''1''))])"
  by (simp_all add: finalVersion_def getVersionFromPackageJson_def readFileSync_def example_runtime_def
      example_world_def example_files_def version_property_def js_def Let_def)

lemma example_sources:
  "fst (isExistingFile example_runtime (path_join example_runtime (js ''/bare'') (js ''source-7400''))
     (js ''7408'' @ js ''.v'') example_world)"
  "\<not> fst (isExistingFile example_runtime (path_join example_runtime (js ''/bare'') (js ''source-7400''))
     (js ''7408'' @ js ''-tb.v'') example_world)"
  "fst (isExistingFile example_runtime (path_join example_runtime (js ''/bare'') (js ''source-7400''))
     (js ''7400'' @ js ''.v'') example_world)"
  "fst (isExistingFile example_runtime (path_join example_runtime (js ''/bare'') (js ''source-7400''))
     (js ''7400'' @ js ''-tb.v'') example_world)"
  "fst (isExistingFile example_runtime (path_join example_runtime (js ''/bare'') (js ''source-7400''))
     (js ''7402'' @ js ''.v'') example_world)"
  "fst (isExistingFile example_runtime (path_join example_runtime (js ''/bare'') (js ''source-7400''))
     (js ''7402'' @ js ''-tb.v'') example_world)"
  "fst (isExistingFile example_runtime (path_join example_runtime (js ''/bare'') (js ''source-7400''))
     (js ''7404'' @ js ''.v'') example_world)"
  "fst (isExistingFile example_runtime (path_join example_runtime (js ''/bare'') (js ''source-7400''))
     (js ''7404'' @ js ''-tb.v'') example_world)"
  "fst (isExistingFile example_runtime (path_join example_runtime (js ''/proj'') (js ''source-7400''))
     (js ''74161'' @ js ''.v'') example_world)"
  "fst (isExistingFile example_runtime (path_join example_runtime (js ''/proj'') (js ''source-7400''))
     (js ''74161'' @ js ''-tb.v'') example_world)"
  "fst (isExistingFile example_runtime (path_join example_runtime (js ''/odd'') (js ''source-7400''))
     (js ''7404'' @ js ''.v'') example_world)"
  "fst (isExistingFile example_runtime (path_join example_runtime (js ''/odd'') (js ''source-7400''))
     (js ''7404'' @ js ''-tb.v'') example_world)"
  by (simp_all add: isExistingFile_def example_runtime_def example_world_def example_files_def js_def Let_def)

lemma example_reads:
  "fst (readFile example_runtime (path_join example_runtime (js ''/bare'') (js ''source-7400''))
     (js ''7400'' @ js ''.v'') example_world) = Inr (js ''// no declaration\<newline>'')"
  "fst (readFile example_runtime (path_join example_runtime (js ''/bare'') (js ''source-7400''))
     (js ''7400'' @ js ''-tb.v'') example_world) = Inr (js ''module test;\<newline>'')"
  "fst (readFile example_runtime (path_join example_runtime (js ''/bare'') (js ''source-7400''))
     (js ''7402'' @ js ''.v'') example_world) =
     Inl (SystemError EACCES (js ''open'') (Some (js ''/bare/source-7400/7402.v'')))"
  "fst (readFile example_runtime (path_join example_runtime (js ''/bare'') (js ''source-7400''))
     (js ''7404'' @ js ''.v'') example_world) = Inr (js ''module ttl_7404(input A);\<newline>'')"
  "fst (readFile example_runtime (path_join example_runtime (js ''/bare'') (js ''source-7400''))
     (js ''7404'' @ js ''-tb.v'') example_world) = Inr (js ''module test;\<newline>'')"
  "fst (readFile example_runtime (path_join example_runtime (js ''/proj'') (js ''source-7400''))
     (js ''74161'' @ js ''.v'') example_world) =
     Inr (js ''// 4-bit counter\<newline>module ttl_74161 #(parameter WIDTH = 4)\<newline>(input Clk);\<newline>endmodule\<newline>'')"
  "fst (readFile example_runtime (path_join example_runtime (js ''/proj'') (js ''source-7400''))
     (js ''74161'' @ js ''-tb.v'') example_world) = Inr (js ''module test;\<newline>endmodule\<newline>'')"
  "fst (readFile example_runtime (path_join example_runtime (js ''/odd'') (js ''source-7400''))
     (js ''7404'' @ js ''.v'') example_world) = Inr (js ''module ttl_7404(input A);\<newline>'')"
  "fst (readFile example_runtime (path_join example_runtime (js ''/odd'') (js ''source-7400''))
     (js ''7404'' @ js ''-tb.v'') example_world) = Inr (js ''module test;\<newline>'')"
  by (simp_all add: readFile_def readFileSync_def example_runtime_def example_world_def example_files_def js_def)

lemma example_writes:
  "fst (writeFileSync (path_join example_runtime (js ''/bare'') (js ''icechips_'' @ js ''7404'' @ js ''.core''))
     text example_world) = Inl (SystemError EISDIR (js ''open'') (Some (js ''/bare/icechips_7404.core'')))"
  "fst (writeFileSync (path_join example_runtime (js ''/proj'') (js ''icechips_'' @ js ''74161'' @ js ''.core''))
     text example_world) = Inr ()"
  by (simp_all add: writeFileSync_def example_runtime_def example_world_def example_files_def js_def)

lemma example_strings:
  "toStr example_runtime (JStr v) = Inr v"
  "toStr example_runtime (JObj [(js ''toString'', JStr (js ''1''))]) =
     Inl (TypeError (js ''Cannot convert object to primitive value''))"
  by simp_all

text \<open>
  The theorem in the example world: in \<open>/void\<close> and in \<open>/knot\<close> the version lookup
  fails; in \<open>/bare\<close> chip 7408 has no testbench, the source of chip 7400 declares no
  module, that of chip 7402 cannot be read and the core file of chip 7404 cannot be
  written; in \<open>/odd\<close> the version cannot be converted to a string; in \<open>/proj\<close> the core
  file of chip 74161 is written.
\<close>

theorem generateCoreForChip_never_throws_witness:
  "fst (generateCoreForChip example_runtime (js ''74161'') (js ''/void'') None example_world) =
     Inr (failure_result (js ''Error processing 74161: '' @
       err_message (SystemError ENOENT (js ''open'') (Some (js ''/void/package.json''))))) \<and>
   fst (generateCoreForChip example_runtime (js ''74161'') (js ''/knot'') None example_world) =
     Inr (failure_result (js ''Error processing 74161: EISDIR: illegal operation on a directory, read'')) \<and>
   fst (generateCoreForChip example_runtime (js ''7404'') (js ''/odd'') None example_world) =
     Inr (failure_result (js ''Error processing 7404: Cannot convert object to primitive value'')) \<and>
   fst (generateCoreForChip example_runtime (js ''7408'') (js ''/bare'') None example_world) =
     Inr (failure_result (js ''Testbench file not found: /bare/source-7400/7408-tb.v'')) \<and>
   fst (generateCoreForChip example_runtime (js ''7400'') (js ''/bare'') None example_world) =
     Inr (failure_result (js ''Could not extract module name from 7400.v'')) \<and>
   fst (generateCoreForChip example_runtime (js ''7402'') (js ''/bare'') None example_world) =
     Inr (failure_result (js ''Error processing 7402: '' @
       err_message (SystemError EACCES (js ''open'') (Some (js ''/bare/source-7400/7402.v''))))) \<and>
   fst (generateCoreForChip example_runtime (js ''7404'') (js ''/bare'') None example_world) =
     Inr (failure_result (js ''Error processing 7404: '' @
       err_message (SystemError EISDIR (js ''open'') (Some (js ''/bare/icechips_7404.core''))))) \<and>
   fst (generateCoreForChip example_runtime (js ''74161'') (js ''/proj'') None example_world) =
     Inr \<lparr>success = True, message = js ''Generated core file: /proj/icechips_74161.core'',
          chip = Some (js ''74161''), rtl_module = Some (js ''ttl_74161''), tb_module = Some (js ''test'')\<rparr> \<and>
   files (snd (generateCoreForChip example_runtime (js ''74161'') (js ''/proj'') None example_world)) =
     (files example_world)(js ''/proj/icechips_74161.core'' \<mapsto>
        File (generateCoreFile (js ''74161'') (js ''0.9.2'') (js ''ttl_74161'') (js ''test'')))"
proof -
  note facts = example_declarations example_versions example_sources example_reads example_writes
    example_strings
  have lits: "js ''Error processing '' @ js ''74161'' @ js '': '' = js ''Error processing 74161: ''"
    "js ''Error processing '' @ js ''7402'' @ js '': '' = js ''Error processing 7402: ''"
    "js ''Error processing '' @ js ''7404'' @ js '': '' = js ''Error processing 7404: ''"
    "js ''Testbench file not found: '' @
       path_join example_runtime (path_join example_runtime (js ''/bare'') (js ''source-7400'')) (js ''7408'' @ js ''-tb.v'') =
     js ''Testbench file not found: /bare/source-7400/7408-tb.v''"
    "js ''Could not extract module name from '' @ js ''7400'' @ js ''.v'' =
     js ''Could not extract module name from 7400.v''"
    "js ''Generated core file: '' @ path_join example_runtime (js ''/proj'') (js ''icechips_'' @ js ''74161'' @ js ''.core'') =
     js ''Generated core file: /proj/icechips_74161.core''"
    "path_join example_runtime (js ''/proj'') (js ''icechips_'' @ js ''74161'' @ js ''.core'') = js ''/proj/icechips_74161.core''"
    by (simp_all add: js_def example_runtime_def)
  have c1: "fst (generateCoreForChip example_runtime (js ''74161'') (js ''/void'') None example_world) =
     Inr (failure_result (js ''Error processing 74161: '' @
       err_message (SystemError ENOENT (js ''open'') (Some (js ''/void/package.json'')))))"
    using generateCoreForChip_never_throws[of example_runtime "js ''74161''" "js ''/void''" None example_world]
    unfolding Let_def by (simp add: facts lits[symmetric])
  have c7: "fst (generateCoreForChip example_runtime (js ''74161'') (js ''/knot'') None example_world) =
     Inr (failure_result (js ''Error processing 74161: EISDIR: illegal operation on a directory, read''))"
    using generateCoreForChip_never_throws[of example_runtime "js ''74161''" "js ''/knot''" None example_world]
    unfolding Let_def by (simp add: facts lits[symmetric]) (simp add: errno_text_def js_def)
  have c8: "fst (generateCoreForChip example_runtime (js ''7404'') (js ''/odd'') None example_world) =
     Inr (failure_result (js ''Error processing 7404: Cannot convert object to primitive value''))"
    using generateCoreForChip_never_throws[of example_runtime "js ''7404''" "js ''/odd''" None example_world]
    unfolding Let_def by (simp add: facts lits[symmetric]) (simp add: js_def)
  have c2: "fst (generateCoreForChip example_runtime (js ''7408'') (js ''/bare'') None example_world) =
     Inr (failure_result (js ''Testbench file not found: /bare/source-7400/7408-tb.v''))"
    using generateCoreForChip_never_throws[of example_runtime "js ''7408''" "js ''/bare''" None example_world]
    unfolding Let_def by (simp add: facts lits[symmetric])
  have c3: "fst (generateCoreForChip example_runtime (js ''7400'') (js ''/bare'') None example_world) =
     Inr (failure_result (js ''Could not extract module name from 7400.v''))"
    using generateCoreForChip_never_throws[of example_runtime "js ''7400''" "js ''/bare''" None example_world]
    unfolding Let_def by (simp add: facts lits[symmetric])
  have c4: "fst (generateCoreForChip example_runtime (js ''7402'') (js ''/bare'') None example_world) =
     Inr (failure_result (js ''Error processing 7402: '' @
       err_message (SystemError EACCES (js ''open'') (Some (js ''/bare/source-7400/7402.v'')))))"
    using generateCoreForChip_never_throws[of example_runtime "js ''7402''" "js ''/bare''" None example_world]
    unfolding Let_def by (simp add: facts lits[symmetric])
  have c5: "fst (generateCoreForChip example_runtime (js ''7404'') (js ''/bare'') None example_world) =
     Inr (failure_result (js ''Error processing 7404: '' @
       err_message (SystemError EISDIR (js ''open'') (Some (js ''/bare/icechips_7404.core'')))))"
    using generateCoreForChip_never_throws[of example_runtime "js ''7404''" "js ''/bare''" None example_world]
    unfolding Let_def by (simp add: facts lits[symmetric])
  have c6: "fst (generateCoreForChip example_runtime (js ''74161'') (js ''/proj'') None example_world) =
     Inr \<lparr>success = True, message = js ''Generated core file: /proj/icechips_74161.core'',
          chip = Some (js ''74161''), rtl_module = Some (js ''ttl_74161''), tb_module = Some (js ''test'')\<rparr> \<and>
   files (snd (generateCoreForChip example_runtime (js ''74161'') (js ''/proj'') None example_world)) =
     (files example_world)(js ''/proj/icechips_74161.core'' \<mapsto>
        File (generateCoreFile (js ''74161'') (js ''0.9.2'') (js ''ttl_74161'') (js ''test'')))"
    using generateCoreForChip_never_throws[of example_runtime "js ''74161''" "js ''/proj''" None example_world]
    unfolding Let_def by (simp add: facts lits[symmetric])
  from c1 c2 c3 c4 c5 c6 c7 c8 show ?thesis by blast
qed

text \<open>
  The claim as stated fails: in \<open>/void\<close> the version lookup throws, and
  \<open>generateCoreForChip\<close> returns a failure result instead of letting the error through.
\<close>

theorem generateCoreForChip_manifest_failure_counterexample:
  "fst (getVersionFromPackageJson example_runtime (js ''/void'') example_world) =
     Inl (SystemError ENOENT (js ''open'') (Some (js ''/void/package.json''))) \<and>
   fst (generateCoreForChip example_runtime (js ''74161'') (js ''/void'') None example_world) =
     Inr (failure_result (js ''Error processing 74161: '' @
            err_message (SystemError ENOENT (js ''open'') (Some (js ''/void/package.json''))))) \<and>
   fst (generateCoreForChip example_runtime (js ''74161'') (js ''/void'') None example_world) \<noteq>
     Inl (SystemError ENOENT (js ''open'') (Some (js ''/void/package.json'')))"
proof -
  have "fst (getVersionFromPackageJson example_runtime (js ''/void'') example_world) =
     Inl (SystemError ENOENT (js ''open'') (Some (js ''/void/package.json'')))"
    using example_versions(1) by (simp add: finalVersion_def)
  moreover have "fst (generateCoreForChip example_runtime (js ''74161'') (js ''/void'') None example_world) =
     Inr (failure_result (js ''Error processing 74161: '' @
            err_message (SystemError ENOENT (js ''open'') (Some (js ''/void/package.json'')))))"
  proof -
    have "fst (generateCoreForChip example_runtime (js ''74161'') (js ''/void'') None example_world) =
      Inr (failure_result (js ''Error processing '' @ js ''74161'' @ js '': '' @
            err_message (SystemError ENOENT (js ''open'') (Some (js ''/void/package.json'')))))"
      by (simp add: generateCoreForChip_def try_version_fails[OF example_versions(1)])
    then show ?thesis by (simp add: js_def)
  qed
  ultimately show ?thesis by simp
qed

lemma finalVersion_given:
  "(\<exists>v. version = Some v \<and> v \<noteq> []) \<or> (\<exists>ver. fst (getVersionFromPackageJson rt projectRoot w) = Inr ver)
   \<Longrightarrow> \<exists>ver. fst (finalVersion rt projectRoot version w) = Inr ver"
  by (cases version) (auto simp: finalVersion_def)

lemma finalVersion_looked_up:
  "version = None \<or> version = Some [] \<Longrightarrow>
   finalVersion rt projectRoot version w = getVersionFromPackageJson rt projectRoot w"
  by (auto simp: finalVersion_def)

lemma missing_rtl_world:
  assumes "\<not> fst (isExistingFile rt (path_join rt projectRoot (js ''source-7400'')) (chipNumber @ js ''.v'') w)"
  shows "files (snd (generateCoreForChip rt chipNumber projectRoot version w)) = files w"
    and "WriteFileSync p text \<in> set (trace (snd (generateCoreForChip rt chipNumber projectRoot version w)))
         \<Longrightarrow> WriteFileSync p text \<in> set (trace w)"
    and "\<exists>result. fst (generateCoreForChip rt chipNumber projectRoot version w) = Inr result \<and> \<not> success result"
proof -
  have "files (snd (generateCoreForChip rt chipNumber projectRoot version w)) = files w \<and>
    (WriteFileSync p text \<in> set (trace (snd (generateCoreForChip rt chipNumber projectRoot version w)))
         \<longrightarrow> WriteFileSync p text \<in> set (trace w)) \<and>
    (\<exists>result. fst (generateCoreForChip rt chipNumber projectRoot version w) = Inr result \<and> \<not> success result)"
  proof (cases "fst (finalVersion rt projectRoot version w)")
    case (Inl e)
    show ?thesis
      by (auto simp: generateCoreForChip_def try_version_fails[OF Inl] failure_not_success
          finalVersion_keeps(1) dest: finalVersion_keeps(3))
  next
    case (Inr ver)
    show ?thesis
      by (auto simp: generateCoreForChip_def try_rtl_missing[OF Inr assms] failure_not_success
          finalVersion_keeps(1) dest: finalVersion_keeps(3))
  qed
  then show "files (snd (generateCoreForChip rt chipNumber projectRoot version w)) = files w"
    and "WriteFileSync p text \<in> set (trace (snd (generateCoreForChip rt chipNumber projectRoot version w)))
         \<Longrightarrow> WriteFileSync p text \<in> set (trace w)"
    and "\<exists>result. fst (generateCoreForChip rt chipNumber projectRoot version w) = Inr result \<and> \<not> success result"
    by blast+
qed

lemma example_lookups:
  "fst (getVersionFromPackageJson example_runtime (js ''/proj'') example_world) = Inr (JStr (js ''0.9.2''))"
  "fst (getVersionFromPackageJson example_runtime (js ''/void'') example_world) =
     Inl (SystemError ENOENT (js ''open'') (Some (js ''/void/package.json'')))"
  using example_versions by (simp_all add: finalVersion_def)

lemma example_missing:
  "\<not> fst (isExistingFile example_runtime (path_join example_runtime (js ''/proj'') (js ''source-7400''))
        (js ''99999'' @ js ''.v'') example_world)"
  "\<not> fst (isExistingFile example_runtime (path_join example_runtime (js ''/void'') (js ''source-7400''))
        (js ''99999'' @ js ''.v'') example_world)"
  by (simp_all add: isExistingFile_def example_runtime_def example_world_def example_files_def js_def Let_def)

text \<open>
  C6, as amended. When the file \<open><chip>.v\<close> does not exist in \<open>source-7400\<close>,
  \<open>generateCoreForChip\<close> returns a result with \<open>success\<close> false, the files of the world
  are unchanged and nothing has been written. When the version is given, or the version
  lookup succeeds, the message is \<open>RTL file not found:\<close> and the path of that file; when
  the version is looked up and the lookup fails, the message is
  \<open>Error processing <chip>:\<close> and the message of that error.
\<close>

theorem generateCoreForChip_missing_rtl:
  "\<not> fst (isExistingFile rt (path_join rt projectRoot (js ''source-7400'')) (chipNumber @ js ''.v'') w)
   \<longrightarrow>
   (\<exists>result. fst (generateCoreForChip rt chipNumber projectRoot version w) = Inr result \<and> \<not> success result) \<and>
   files (snd (generateCoreForChip rt chipNumber projectRoot version w)) = files w \<and>
   (\<forall>p text. WriteFileSync p text \<in> set (trace (snd (generateCoreForChip rt chipNumber projectRoot version w)))
      \<longrightarrow> WriteFileSync p text \<in> set (trace w)) \<and>
   ((\<exists>v. version = Some v \<and> v \<noteq> []) \<or>
    (\<exists>ver. fst (getVersionFromPackageJson rt projectRoot w) = Inr ver) \<longrightarrow>
      fst (generateCoreForChip rt chipNumber projectRoot version w) =
        Inr (failure_result (js ''RTL file not found: '' @
               path_join rt (path_join rt projectRoot (js ''source-7400'')) (chipNumber @ js ''.v'')))) \<and>
   (\<forall>e. (version = None \<or> version = Some []) \<and>
        fst (getVersionFromPackageJson rt projectRoot w) = Inl e \<longrightarrow>
      fst (generateCoreForChip rt chipNumber projectRoot version w) =
        Inr (failure_result (js ''Error processing '' @ chipNumber @ js '': '' @ err_message e)))"
proof (intro impI conjI allI)
  assume m: "\<not> fst (isExistingFile rt (path_join rt projectRoot (js ''source-7400'')) (chipNumber @ js ''.v'') w)"
  show "\<exists>result. fst (generateCoreForChip rt chipNumber projectRoot version w) = Inr result \<and> \<not> success result"
    by (rule missing_rtl_world(3)[OF m])
  show "files (snd (generateCoreForChip rt chipNumber projectRoot version w)) = files w"
    by (rule missing_rtl_world(1)[OF m])
  show "WriteFileSync p t \<in> set (trace w)"
    if "WriteFileSync p t \<in> set (trace (snd (generateCoreForChip rt chipNumber projectRoot version w)))"
    for p t
    using that by (rule missing_rtl_world(2)[OF m])
  show "fst (generateCoreForChip rt chipNumber projectRoot version w) =
        Inr (failure_result (js ''RTL file not found: '' @
               path_join rt (path_join rt projectRoot (js ''source-7400'')) (chipNumber @ js ''.v'')))"
    if "(\<exists>v. version = Some v \<and> v \<noteq> []) \<or>
        (\<exists>ver. fst (getVersionFromPackageJson rt projectRoot w) = Inr ver)"
  proof -
    from finalVersion_given[OF that] obtain ver
      where ver: "fst (finalVersion rt projectRoot version w) = Inr ver" by blast
    show ?thesis by (simp add: generateCoreForChip_def try_rtl_missing[OF ver m])
  qed
  show "fst (generateCoreForChip rt chipNumber projectRoot version w) =
        Inr (failure_result (js ''Error processing '' @ chipNumber @ js '': '' @ err_message e))"
    if "(version = None \<or> version = Some []) \<and> fst (getVersionFromPackageJson rt projectRoot w) = Inl e"
    for e
  proof -
    from that have "fst (finalVersion rt projectRoot version w) = Inl e"
      using finalVersion_looked_up[of version rt projectRoot w] by simp
    then show ?thesis by (simp add: generateCoreForChip_def try_version_fails)
  qed
qed

text \<open>
  The theorem on chip 99999, which has no source file, in \<open>/proj\<close> and in \<open>/void\<close>,
  where the version lookup fails.
\<close>

theorem generateCoreForChip_missing_rtl_witness:
  "fst (generateCoreForChip example_runtime (js ''99999'') (js ''/proj'') None example_world) =
     Inr (failure_result (js ''RTL file not found: /proj/source-7400/99999.v'')) \<and>
   files (snd (generateCoreForChip example_runtime (js ''99999'') (js ''/proj'') None example_world)) =
     files example_world \<and>
   (\<forall>p text. WriteFileSync p text \<notin>
      set (trace (snd (generateCoreForChip example_runtime (js ''99999'') (js ''/proj'') None example_world)))) \<and>
   fst (generateCoreForChip example_runtime (js ''99999'') (js ''/void'') None example_world) =
     Inr (failure_result (js ''Error processing 99999: '' @
            err_message (SystemError ENOENT (js ''open'') (Some (js ''/void/package.json''))))) \<and>
   files (snd (generateCoreForChip example_runtime (js ''99999'') (js ''/void'') None example_world)) =
     files example_world"
proof -
  have p: "js ''RTL file not found: '' @
            path_join example_runtime (path_join example_runtime (js ''/proj'') (js ''source-7400''))
              (js ''99999'' @ js ''.v'') = js ''RTL file not found: /proj/source-7400/99999.v''"
    "js ''Error processing '' @ js ''99999'' @ js '': '' = js ''Error processing 99999: ''"
    by (simp_all add: example_runtime_def js_def)
  have t: "trace example_world = []" by (simp add: example_world_def)
  from generateCoreForChip_missing_rtl[of example_runtime "js ''/proj''" "js ''99999''" example_world None]
    example_lookups(1) example_missing(1)
  have a: "fst (generateCoreForChip example_runtime (js ''99999'') (js ''/proj'') None example_world) =
     Inr (failure_result (js ''RTL file not found: /proj/source-7400/99999.v'')) \<and>
   files (snd (generateCoreForChip example_runtime (js ''99999'') (js ''/proj'') None example_world)) =
     files example_world \<and>
   (\<forall>p text. WriteFileSync p text \<notin>
      set (trace (snd (generateCoreForChip example_runtime (js ''99999'') (js ''/proj'') None example_world))))"
    unfolding p t by simp
  from generateCoreForChip_missing_rtl[of example_runtime "js ''/void''" "js ''99999''" example_world None]
    example_lookups(2) example_missing(2)
  have b: "fst (generateCoreForChip example_runtime (js ''99999'') (js ''/void'') None example_world) =
     Inr (failure_result (js ''Error processing 99999: '' @
            err_message (SystemError ENOENT (js ''open'') (Some (js ''/void/package.json''))))) \<and>
   files (snd (generateCoreForChip example_runtime (js ''99999'') (js ''/void'') None example_world)) =
     files example_world"
    by (simp add: p(2)[symmetric])
  from a b show ?thesis by simp
qed

text \<open>
  The claim as stated fails: in \<open>/void\<close> the file \<open>99999.v\<close> does not exist either, but
  the version lookup fails first and the message names \<open>package.json\<close>, not the RTL file.
\<close>

theorem generateCoreForChip_missing_rtl_counterexample:
  "\<not> fst (isExistingFile example_runtime (path_join example_runtime (js ''/void'') (js ''source-7400''))
           (js ''99999.v'') example_world) \<and>
   fst (generateCoreForChip example_runtime (js ''99999'') (js ''/void'') None example_world) =
     Inr (failure_result (js ''Error processing 99999: '' @
            err_message (SystemError ENOENT (js ''open'') (Some (js ''/void/package.json''))))) \<and>
   \<not> str_includes (js ''Error processing 99999: '' @
            err_message (SystemError ENOENT (js ''open'') (Some (js ''/void/package.json''))))
         (js ''/void/source-7400/99999.v'')"
proof -
  have "\<not> fst (isExistingFile example_runtime (path_join example_runtime (js ''/void'') (js ''source-7400''))
           (js ''99999.v'') example_world)"
    using example_missing(2) by (simp add: js_def)
  moreover have "fst (generateCoreForChip example_runtime (js ''99999'') (js ''/void'') None example_world) =
     Inr (failure_result (js ''Error processing 99999: '' @
            err_message (SystemError ENOENT (js ''open'') (Some (js ''/void/package.json'')))))"
  proof -
    have "fst (generateCoreForChip example_runtime (js ''99999'') (js ''/void'') None example_world) =
      Inr (failure_result (js ''Error processing '' @ js ''99999'' @ js '': '' @
            err_message (SystemError ENOENT (js ''open'') (Some (js ''/void/package.json'')))))"
      by (simp add: generateCoreForChip_def try_version_fails[OF example_versions(1)])
    then show ?thesis by (simp add: js_def)
  qed
  moreover have "\<not> str_includes (js ''Error processing 99999: '' @
            err_message (SystemError ENOENT (js ''open'') (Some (js ''/void/package.json''))))
         (js ''/void/source-7400/99999.v'')"
    by (simp add: str_includes_def errno_text_def js_def sublist_code)
  ultimately show ?thesis by blast
qed

section \<open>The bulk test runner: summary and exit status\<close>

lemma console_one_console [simp]:
  "console (console_log s w) = console w @ [Stdout (s @ js ''\<newline>'')]"
  "console (console_error s w) = console w @ [Stderr (s @ js ''\<newline>'')]"
  "console (stdout_write s w) = console w @ [Stdout s]"
  by (simp_all add: console_log_def console_error_def stdout_write_def)

lemma console_logs_console [simp]:
  "console (console_logs ls w) = console w @ map (\<lambda>s. Stdout (s @ js ''\<newline>'')) ls"
  unfolding console_logs_def by (induction ls arbitrary: w) simp_all

lemma console_errors_console [simp]:
  "console (console_errors ls w) = console w @ map (\<lambda>s. Stderr (s @ js ''\<newline>'')) ls"
  unfolding console_errors_def by (induction ls arbitrary: w) simp_all

lemma runFuseSoCSim_console:
  "prefix (console w) (console (snd (runFuseSoCSim coreName verbose w)))"
  by (cases verbose; cases "shell w (sim_command coreName)";
      simp add: runFuseSoCSim_def execSync_pipe_def execSync_inherit_def uncaptured_def inherited_def Let_def split: js_error.splits)

lemma test_each_Cons:
  "test_each verbose len index (coreName # rest) t w =
     (let progress = js ''['' @ showNat (index + 1) @ js ''/'' @ showNat len @ js '']'';
          w1 = (if verbose then console_log (progress @ js '' Testing '' @ coreName @ js ''...'') w
                else stdout_write (progress @ js '' '' @ coreName @ js ''... '') w);
          result = fst (runFuseSoCSim coreName verbose w1);
          w2 = snd (runFuseSoCSim coreName verbose w1);
          t' = (if sim_success result then t\<lparr>successCount := successCount t + 1\<rparr>
                else t\<lparr>failureCount := failureCount t + 1,
                       failures := failures t @ [(coreName, sim_message result, sim_output result)]\<rparr>);
          w3 = (if sim_success result
                then (if verbose
                      then console_log (progress @ js '' '' @ [0x2713] @ js '' '' @ coreName @ js '': '' @
                                        sim_message result) w2
                      else console_log [0x2713] w2)
                else (if verbose
                      then (let w' = console_error (progress @ js '' '' @ [0x2717] @ js '' '' @ coreName @
                                                    js '': '' @ sim_message result) w2
                            in case sim_output result of
                                 Some text \<Rightarrow> if text \<noteq> [] then console_error text w' else w'
                               | None \<Rightarrow> w')
                      else console_log [0x2717] w2));
          w4 = (if verbose then console_log [] w3 else w3)
      in test_each verbose len (index + 1) rest t' w4)"
  by (simp add: Let_def split_def)

lemma test_each_facts:
  "successCount (fst (test_each verbose len index cores t w)) =
     successCount t + length (filter (\<lambda>c. \<not> sim_fails (shell w) c) cores) \<and>
   failureCount (fst (test_each verbose len index cores t w)) =
     failureCount t + length (filter (sim_fails (shell w)) cores) \<and>
   length (failures (fst (test_each verbose len index cores t w))) =
     length (failures t) + length (filter (sim_fails (shell w)) cores) \<and>
   trace (snd (test_each verbose len index cores t w)) =
     trace w @ map (\<lambda>c. ExecSync (sim_command c)) cores \<and>
   shell (snd (test_each verbose len index cores t w)) = shell w \<and>
   prefix (console w) (console (snd (test_each verbose len index cores t w)))"
proof (induction cores arbitrary: index t w)
  case Nil
  show ?case by simp
next
  case (Cons coreName rest)
  define progress where "progress = js ''['' @ showNat (index + 1) @ js ''/'' @ showNat len @ js '']''"
  define w1 where "w1 = (if verbose then console_log (progress @ js '' Testing '' @ coreName @ js ''...'') w
                else stdout_write (progress @ js '' '' @ coreName @ js ''... '') w)"
  define result where "result = fst (runFuseSoCSim coreName verbose w1)"
  define w2 where "w2 = snd (runFuseSoCSim coreName verbose w1)"
  define t' where "t' = (if sim_success result then t\<lparr>successCount := successCount t + 1\<rparr>
                else t\<lparr>failureCount := failureCount t + 1,
                       failures := failures t @ [(coreName, sim_message result, sim_output result)]\<rparr>)"
  define w3 where "w3 = (if sim_success result
                then (if verbose
                      then console_log (progress @ js '' '' @ [0x2713] @ js '' '' @ coreName @ js '': '' @
                                        sim_message result) w2
                      else console_log [0x2713] w2)
                else (if verbose
                      then (let w' = console_error (progress @ js '' '' @ [0x2717] @ js '' '' @ coreName @
                                                    js '': '' @ sim_message result) w2
                            in case sim_output result of
                                 Some text \<Rightarrow> if text \<noteq> [] then console_error text w' else w'
                               | None \<Rightarrow> w')
                      else console_log [0x2717] w2))"
  define w4 where "w4 = (if verbose then console_log [] w3 else w3)"
  have step: "test_each verbose len index (coreName # rest) t w = test_each verbose len (index + 1) rest t' w4"
    unfolding test_each_Cons progress_def w1_def result_def w2_def t'_def w3_def w4_def Let_def
    by (rule refl)
  have w1: "shell w1 = shell w" "trace w1 = trace w" "prefix (console w) (console w1)"
    by (simp_all add: w1_def)
  have w2: "shell w2 = shell w" "trace w2 = trace w @ [ExecSync (sim_command coreName)]"
    "prefix (console w) (console w2)"
    using w1 runFuseSoCSim_console[of w1 coreName verbose]
    by (auto simp: w2_def runFuseSoCSim_world)
  have res: "sim_success result = (\<not> sim_fails (shell w) coreName)"
    using w1 by (simp add: result_def runFuseSoCSim_world sim_fails_def)
  have w3: "shell w3 = shell w" "trace w3 = trace w @ [ExecSync (sim_command coreName)]"
    "prefix (console w) (console w3)"
    using w2 by (auto simp: w3_def Let_def split: option.splits intro: prefix_order.order_trans)
  have w4: "shell w4 = shell w" "trace w4 = trace w @ [ExecSync (sim_command coreName)]"
    "prefix (console w) (console w4)"
    using w3 by (auto simp: w4_def intro: prefix_order.order_trans)
  have t': "successCount t' = successCount t + (if sim_fails (shell w) coreName then 0 else 1)"
    "failureCount t' = failureCount t + (if sim_fails (shell w) coreName then 1 else 0)"
    "length (failures t') = length (failures t) + (if sim_fails (shell w) coreName then 1 else 0)"
    using res by (simp_all add: t'_def)
  note IH = Cons.IH[of "index + 1" t' w4]
  have "prefix (console w) (console (snd (test_each verbose len (index + 1) rest t' w4)))"
    using IH w4(3) by (meson prefix_order.order_trans)
  then show ?case
    unfolding step using IH w4 t' by simp
qed

lemma filter_counts:
  "length (filter (\<lambda>c. \<not> P c) xs) = length xs - length (filter P xs)"
  using sum_length_filter_compl[of P xs] by simp

lemma test_cores_run_facts:
  assumes n: "n = length cores" and k: "k = length (filter (sim_fails (shell w)) cores)"
  shows "fst (test_cores_run verbose cores w) = (if 0 < k then 1 else 0)"
    and "\<exists>before after. console (snd (test_cores_run verbose cores w)) =
           console w @ before @
           [Stdout (js ''\<newline>''), Stdout (js ''Summary:\<newline>''),
            Stdout (js ''  Total:   '' @ showNat n @ js ''\<newline>''),
            Stdout (js ''  Success: '' @ showNat (n - k) @ js ''\<newline>''),
            Stdout (js ''  Failed:  '' @ showNat k @ js ''\<newline>'')] @ after"
    and "trace (snd (test_cores_run verbose cores w)) = trace w @ map (\<lambda>c. ExecSync (sim_command c)) cores"
proof -
  define w3 where "w3 = console_log (js ''Found '' @ showNat (length cores) @ js '' icechips core(s) to test:'') w"
  define w4 where "w4 = (if verbose \<or> length cores \<le> 10
                then console_logs (map (\<lambda>core. js ''  '' @ core) cores) w3
                else console_log (js ''  '' @ hd cores @ js '' ... '' @ last cores) w3)"
  define w5 where "w5 = console_log [] w4"
  define t where "t = fst (test_each verbose (length cores) 0 cores (no_tally :: (jsstring \<times> jsstring \<times> jsstring option) tally) w5)"
  define w6 where "w6 = snd (test_each verbose (length cores) 0 cores (no_tally :: (jsstring \<times> jsstring \<times> jsstring option) tally) w5)"
  define w7 where "w7 = console_logs
                 [[], js ''Summary:'', js ''  Total:   '' @ showNat (length cores),
                  js ''  Success: '' @ showNat (successCount t),
                  js ''  Failed:  '' @ showNat (failureCount t)] w6"
  have run: "test_cores_run verbose cores w =
     (if length (failures t) > 0
      then (1, console_errors (map (\<lambda>(coreName, m, output). js ''  '' @ coreName @ js '': '' @ m) (failures t))
                 (console_logs [[], js ''Failures:''] w7))
      else (0, console_logs [[], js ''All cores passed!''] w7))"
    unfolding test_cores_run_def w3_def w4_def w5_def t_def w6_def w7_def Let_def split_def
    by (rule refl)
  have w5: "shell w5 = shell w" "trace w5 = trace w" "prefix (console w) (console w5)"
    by (simp_all add: w5_def w4_def w3_def)
  note f = test_each_facts[of verbose "length cores" 0 cores "no_tally :: (jsstring \<times> jsstring \<times> jsstring option) tally" w5,
      folded t_def w6_def, unfolded w5(1)]
  have t: "successCount t = n - k" "failureCount t = k" "length (failures t) = k"
    using f n k by (simp_all add: no_tally_def filter_counts)
  have w6: "trace w6 = trace w @ map (\<lambda>c. ExecSync (sim_command c)) cores" "prefix (console w) (console w6)"
    using f w5 by (auto intro: prefix_order.order_trans)
  then obtain before where before: "console w6 = console w @ before" by (auto simp: prefix_def)
  have c7: "console w7 = console w @ before @
           [Stdout (js ''\<newline>''), Stdout (js ''Summary:\<newline>''),
            Stdout (js ''  Total:   '' @ showNat n @ js ''\<newline>''),
            Stdout (js ''  Success: '' @ showNat (n - k) @ js ''\<newline>''),
            Stdout (js ''  Failed:  '' @ showNat k @ js ''\<newline>'')]"
    using before t n by (simp add: w7_def js_def)
  have t7: "trace w7 = trace w6" by (simp add: w7_def)
  show "fst (test_cores_run verbose cores w) = (if 0 < k then 1 else 0)"
    unfolding run using t by simp
  show "trace (snd (test_cores_run verbose cores w)) = trace w @ map (\<lambda>c. ExecSync (sim_command c)) cores"
    unfolding run using w6 t7 by simp
  show "\<exists>before after. console (snd (test_cores_run verbose cores w)) =
           console w @ before @
           [Stdout (js ''\<newline>''), Stdout (js ''Summary:\<newline>''),
            Stdout (js ''  Total:   '' @ showNat n @ js ''\<newline>''),
            Stdout (js ''  Success: '' @ showNat (n - k) @ js ''\<newline>''),
            Stdout (js ''  Failed:  '' @ showNat k @ js ''\<newline>'')] @ after"
  proof (cases "length (failures t) > 0")
    case True
    then have "console (snd (test_cores_run verbose cores w)) = console w7 @
        map (\<lambda>s. Stdout (s @ js ''\<newline>'')) [[], js ''Failures:''] @
        map (\<lambda>s. Stderr (s @ js ''\<newline>''))
          (map (\<lambda>(coreName, m, output). js ''  '' @ coreName @ js '': '' @ m) (failures t))"
      unfolding run by simp
    then show ?thesis unfolding c7 by (metis append.assoc)
  next
    case False
    then have "console (snd (test_cores_run verbose cores w)) = console w7 @
        map (\<lambda>s. Stdout (s @ js ''\<newline>'')) [[], js ''All cores passed!'']"
      unfolding run by simp
    then show ?thesis unfolding c7 by (metis append.assoc)
  qed
qed

lemma getAllIceChipsCores_ok:
  "shell w (js ''fusesoc list-cores'') = Inr listing \<Longrightarrow>
   getAllIceChipsCores w = (Inr (coresOfListing listing), log_event (ExecSync (js ''fusesoc list-cores'')) w)"
  by (simp add: getAllIceChipsCores_def execSync_pipe_def)

lemma test_cores_main_runs:
  assumes av: "\<not> isl (shell w (js ''which fusesoc''))"
    and ls: "shell w (js ''fusesoc list-cores'') = Inr listing"
    and found: "coresOfListing listing \<noteq> []"
    and cores: "cores = filterCores (coresOfListing listing) (filter_option args)" "cores \<noteq> []"
  shows "test_cores_main args w =
         test_cores_run (verbose_option args) cores
           (log_event (ExecSync (js ''fusesoc list-cores'')) (log_event (ExecSync (js ''which fusesoc'')) w))"
proof -
  have g: "getAllIceChipsCores (log_event (ExecSync (js ''which fusesoc'')) w) =
      (Inr (coresOfListing listing),
       log_event (ExecSync (js ''fusesoc list-cores'')) (log_event (ExecSync (js ''which fusesoc'')) w))"
    using ls by (simp add: getAllIceChipsCores_ok)
  show ?thesis
  proof (cases "filter_option args")
    case None
    then show ?thesis
      using av found cores
      by (simp add: test_cores_main_def isFuseSoCAvailable_eq g Let_def filterCores_def)
  next
    case (Some pat)
    then show ?thesis
      using av found cores
      by (simp add: test_cores_main_def isFuseSoCAvailable_eq g Let_def)
  qed
qed


lemma example_cores:
  "coresOfListing example_listing =
     [js ''icechips:ttl:7400'', js ''icechips:ttl:7402'', js ''icechips:ttl:7404'',
      js ''icechips:ttl:7408'', js ''icechips:ttl:74161'']"
  by (simp add: coresOfListing_def example_listing_def js_def str_includes_def sublist_code
      coreNameRegex_exec isNameChar_def isSpace_def)

lemma example_fusesoc:
  "\<not> isl (shell example_world (js ''which fusesoc''))"
  "shell example_world (js ''fusesoc list-cores'') = Inr example_listing"
  "trace example_world = []" "console example_world = []"
  by (simp_all add: example_world_def example_shell_def js_def)






section \<open>The core names the bulk test runner discovers\<close>

lemma set_coresOfListing: "set (coresOfListing listing) = set (collectCores (splitOn 0x0A [] listing))"
  by (simp add: coresOfListing_def)

lemma collect_truncated:
  assumes "ident \<noteq> []" "list_all isNameChar ident"
  shows "collectCores [js ''icechips:ttl:'' @ ident @ js '':'' @ rest] = [js ''icechips:ttl:'' @ ident]"
proof -
  have "prefix (js ''icechips:ttl:'') (js ''icechips:ttl:'' @ ident @ js '':'' @ rest)"
    by simp
  then have "sublist (js ''icechips:ttl:'') (js ''icechips:ttl:'' @ ident @ js '':'' @ rest)"
    by (rule prefix_imp_sublist)
  then have "str_includes (js ''icechips:ttl:'' @ ident @ js '':'' @ rest) (js ''icechips:ttl:'')"
    by (simp only: str_includes_def)
  then show ?thesis using truncated_line[OF assms, of rest] by simp
qed

text \<open>
  C10. \<open>getAllIceChipsCores\<close> returns the core names found in the listing of
  \<open>fusesoc list-cores\<close>. Each of them is \<open>icechips:ttl:\<close> followed by a non-empty
  identifier without white space or colon, so it has exactly the three parts \<open>icechips\<close>,
  \<open>ttl\<close> and the identifier between colons. A line of the listing that registers
  \<open>icechips:ttl:<identifier>:<rest>\<close> gives \<open>icechips:ttl:<identifier>\<close>: the match
  stops at the colon before the version. Without \<open>--filter\<close>, these names are the ones
  \<open>main\<close> runs the simulation on.
\<close>

theorem discovered_cores_three_parts:
  "(shell w (js ''fusesoc list-cores'') = Inr listing \<longrightarrow>
      fst (getAllIceChipsCores w) = Inr (coresOfListing listing)) \<and>
   (c \<in> set (coresOfListing listing) \<longrightarrow>
      core_shape c \<and>
      (\<exists>ident. splitOn (of_char CHR '':'') [] c = [js ''icechips'', js ''ttl'', ident])) \<and>
   (ident \<noteq> [] \<and> list_all isNameChar ident \<longrightarrow>
      collectCores [js ''icechips:ttl:'' @ ident @ js '':'' @ rest] = [js ''icechips:ttl:'' @ ident]) \<and>
   (\<not> isl (shell w (js ''which fusesoc'')) \<and> shell w (js ''fusesoc list-cores'') = Inr listing \<and>
    coresOfListing listing \<noteq> [] \<and> filter_option args = None \<longrightarrow>
      trace (snd (test_cores_main args w)) =
        trace w @ [ExecSync (js ''which fusesoc''), ExecSync (js ''fusesoc list-cores'')] @
        map (\<lambda>c. ExecSync (js ''fusesoc run --target=sim '' @ c)) (coresOfListing listing))"
proof (intro conjI impI)
  assume "shell w (js ''fusesoc list-cores'') = Inr listing"
  then show "fst (getAllIceChipsCores w) = Inr (coresOfListing listing)"
    by (simp add: getAllIceChipsCores_ok)
next
  assume "c \<in> set (coresOfListing listing)"
  then have "c \<in> set (collectCores (splitOn 0x0A [] listing))" by (simp add: set_coresOfListing)
  then show s: "core_shape c" by (rule collectCores_shape)
  then show "\<exists>ident. splitOn (of_char CHR '':'') [] c = [js ''icechips'', js ''ttl'', ident]"
    by (rule core_shape_parts)
next
  assume "ident \<noteq> [] \<and> list_all isNameChar ident"
  then show "collectCores [js ''icechips:ttl:'' @ ident @ js '':'' @ rest] = [js ''icechips:ttl:'' @ ident]"
    using collect_truncated by blast
next
  assume a: "\<not> isl (shell w (js ''which fusesoc'')) \<and> shell w (js ''fusesoc list-cores'') = Inr listing \<and>
    coresOfListing listing \<noteq> [] \<and> filter_option args = None"
  let ?w2 = "log_event (ExecSync (js ''fusesoc list-cores'')) (log_event (ExecSync (js ''which fusesoc'')) w)"
  have f: "coresOfListing listing = filterCores (coresOfListing listing) (filter_option args)"
    using a by (simp add: filterCores_def)
  have m: "test_cores_main args w = test_cores_run (verbose_option args) (coresOfListing listing) ?w2"
    using a f test_cores_main_runs[of w listing "coresOfListing listing" args] by blast
  have "sim_command = (\<lambda>c. js ''fusesoc run --target=sim '' @ c)"
    by (simp add: sim_command_def fun_eq_iff)
  then show "trace (snd (test_cores_main args w)) =
        trace w @ [ExecSync (js ''which fusesoc''), ExecSync (js ''fusesoc list-cores'')] @
        map (\<lambda>c. ExecSync (js ''fusesoc run --target=sim '' @ c)) (coresOfListing listing)"
    unfolding m using test_cores_run_facts(3)[OF refl refl, of "verbose_option args" "coresOfListing listing" ?w2]
    by simp
qed

text \<open>The theorem in the example world, where the registered cores carry the version 0.9.2.\<close>

theorem discovered_cores_three_parts_witness:
  "fst (getAllIceChipsCores example_world) =
     Inr [js ''icechips:ttl:7400'', js ''icechips:ttl:7402'', js ''icechips:ttl:7404'',
          js ''icechips:ttl:7408'', js ''icechips:ttl:74161''] \<and>
   core_shape (js ''icechips:ttl:74161'') \<and>
   collectCores [js ''icechips:ttl:74161:0.9.2 : local''] = [js ''icechips:ttl:74161''] \<and>
   trace (snd (test_cores_main [] example_world)) =
     [ExecSync (js ''which fusesoc''), ExecSync (js ''fusesoc list-cores''),
      ExecSync (js ''fusesoc run --target=sim icechips:ttl:7400''),
      ExecSync (js ''fusesoc run --target=sim icechips:ttl:7402''),
      ExecSync (js ''fusesoc run --target=sim icechips:ttl:7404''),
      ExecSync (js ''fusesoc run --target=sim icechips:ttl:7408''),
      ExecSync (js ''fusesoc run --target=sim icechips:ttl:74161'')]"
proof -
  have h: "js ''icechips:ttl:74161'' \<in> set (coresOfListing example_listing)"
    "js ''74161'' \<noteq> []" "list_all isNameChar (js ''74161'')"
    "coresOfListing example_listing \<noteq> []" "filter_option [] = None"
    unfolding example_cores by (simp_all add: js_def isNameChar_def isSpace_def filter_option_def)
  have e: "js ''icechips:ttl:'' @ js ''74161'' @ js '':'' @ js ''0.9.2 : local'' =
           js ''icechips:ttl:74161:0.9.2 : local''"
    "js ''icechips:ttl:'' @ js ''74161'' = js ''icechips:ttl:74161''"
    by (simp_all add: js_def)
  from discovered_cores_three_parts[of example_world example_listing "js ''icechips:ttl:74161''"
      "js ''74161''" "js ''0.9.2 : local''" "[]"]
    h example_fusesoc(1,2)
  have "fst (getAllIceChipsCores example_world) = Inr (coresOfListing example_listing) \<and>
    core_shape (js ''icechips:ttl:74161'') \<and>
    collectCores [js ''icechips:ttl:'' @ js ''74161'' @ js '':'' @ js ''0.9.2 : local''] =
      [js ''icechips:ttl:'' @ js ''74161''] \<and>
    trace (snd (test_cores_main [] example_world)) =
        trace example_world @ [ExecSync (js ''which fusesoc''), ExecSync (js ''fusesoc list-cores'')] @
        map (\<lambda>c. ExecSync (js ''fusesoc run --target=sim '' @ c)) (coresOfListing example_listing)"
    by blast
  then show ?thesis
    unfolding e example_cores by (simp add: example_fusesoc(3)) (simp add: js_def)
qed

end
